theory Spec2Isabelle
  imports Complex_Main "HOL-Library.Multiset"
begin

section \<open>Hotel booking backend: the three request handlers of app.py\<close>

text \<open>
  The program is a Flask application with three handlers, \<open>add_booking\<close>,
  \<open>get_room_availability\<close> and \<open>cancel_booking\<close>. Each one opens a MySQL connection,
  runs parameterised SQL statements on a cursor, commits or rolls back, and closes the
  connection. The handlers are embedded as functions from the stored database to the HTTP
  response, the database a later connection sees, the tables the session held when its
  connection was closed, and the list of calls the handler made on the connection.

  The database engine and the connector are not part of the program. What the handlers
  rely on is written out here:
  \<^item> autocommit is off (the connector's default): statements change the session's working
    copy, \<open>commit\<close> publishes it, a successful \<open>rollback\<close> resets it to what was last
    committed, and closing the connection discards it;
  \<^item> \<open>connect\<close>, every \<open>execute\<close>, \<open>commit\<close> and \<open>rollback\<close> may raise
    \<open>mysql.connector.Error\<close>; whether one does, and with which message, is decided by the
    environment (\<open>env\<close>); a call that raises changes no row;
  \<^item> \<open>conn.cursor\<close>, \<open>cursor.close\<close> and \<open>conn.close\<close> do not raise;
  \<^item> an exception that leaves a view function is answered by Flask with status 500;
  \<^item> the request body is a JSON object with scalar fields. What a column holds after an
    insert, and whether the INT column RoomNumber equals a bound parameter that is neither
    an integer nor NULL, are the engine's implicit conversions: the environment supplies
    them;
  \<^item> rows with equal RoomNumber keep their table order under \<open>ORDER BY\<close> (the properties
    proved below hold for every order among them).
\<close>

subsection \<open>Values of JSON fields and SQL parameters\<close>

text \<open>
  The scalar values a JSON body can carry and the connector can bind. A float is kept as
  the text Python's \<open>str\<close> prints for it: the handlers never compute with one.
\<close>

datatype val = VNull | VBool bool | VInt int | VNum string | VStr string

text \<open>Python's \<open>str\<close> on integers: decimal digits, with a minus sign when negative.\<close>

definition digit_char :: "nat \<Rightarrow> char" where
  "digit_char n = ''0123456789'' ! (n mod 10)"

function str_nat :: "nat \<Rightarrow> string" where
  "str_nat n = (if n < 10 then [digit_char n] else str_nat (n div 10) @ [digit_char n])"
  by pat_completeness auto
termination
  by (relation "measure id") auto

definition str_int :: "int \<Rightarrow> string" where
  "str_int i = (if i < 0 then CHR ''-'' # str_nat (nat (- i)) else str_nat (nat i))"

text \<open>What an f-string prints for a value read from the database.\<close>

fun py_str :: "val \<Rightarrow> string" where
  "py_str VNull = ''None''"
| "py_str (VBool b) = (if b then ''True'' else ''False'')"
| "py_str (VInt i) = str_int i"
| "py_str (VNum s) = s"
| "py_str (VStr s) = s"

text \<open>\<open>data.get(k)\<close> on the request's JSON object: \<open>None\<close> when the key is absent.\<close>

definition dict_get :: "(string \<rightharpoonup> val) \<Rightarrow> string \<Rightarrow> val" where
  "dict_get data k = (case data k of None \<Rightarrow> VNull | Some v \<Rightarrow> v)"

subsection \<open>The relational schema\<close>

text \<open>
  Modelled from the spec: the schema (the DDL of Booking, Room, RoomType and Customer) is
  not in the repository. The columns are those of the spec's data model and of the SQL
  text in app.py. Keys are integers; the columns of Booking that an insert fills from the
  request hold what the engine stores for the bound parameter.
\<close>

type_synonym datetime = nat

record booking_row =
  b_BookingID :: int
  b_CustomerID :: val
  b_RoomNumber :: val
  b_CheckInDate :: val
  b_CheckOutDate :: val
  b_TotalCost :: val
  b_BookingDate :: datetime

record room_row =
  r_RoomNumber :: int
  r_RoomTypeID :: int
  r_Status :: string

record roomtype_row =
  rt_RoomTypeID :: int
  rt_TypeName :: string
  rt_Rate :: rat

record customer_row =
  c_CustomerID :: int

record db =
  Booking :: "booking_row list"
  Room :: "room_row list"
  RoomType :: "roomtype_row list"
  Customer :: "customer_row list"

text \<open>One row of the room listing, with the column aliases of the SELECT.\<close>

record room_entry =
  e_RoomNumber :: int
  e_RoomType :: string
  e_Rate :: rat
  e_Status :: string

subsection \<open>SQL statements and their meaning\<close>

datatype stmt =
    InsertBooking val val val val val
      \<comment> \<open>INSERT INTO Booking (CustomerID, RoomNumber, CheckInDate, CheckOutDate, TotalCost,
          BookingDate) VALUES (%s, %s, %s, %s, %s, NOW())\<close>
  | UpdateRoomStatus string val
      \<comment> \<open>UPDATE Room SET Status = '...' WHERE RoomNumber = %s\<close>
  | SelectRooms
      \<comment> \<open>SELECT r.RoomNumber, rt.TypeName AS RoomType, rt.Rate, r.Status FROM Room r
          JOIN RoomType rt ON r.RoomTypeID = rt.RoomTypeID ORDER BY r.RoomNumber\<close>
  | SelectBookingRoom int
      \<comment> \<open>SELECT RoomNumber FROM Booking WHERE BookingID = %s\<close>
  | DeleteBooking int
      \<comment> \<open>DELETE FROM Booking WHERE BookingID = %s\<close>

text \<open>The columns of Booking that the insert fills from bound parameters.\<close>

datatype column = ColCustomerID | ColRoomNumber | ColCheckInDate | ColCheckOutDate | ColTotalCost

text \<open>
  The environment of one request: the errors the connector raises at \<open>connect\<close>, at an
  \<open>execute\<close> (by the session's tables and the statement), at \<open>commit\<close> and at
  \<open>rollback\<close>; the key the engine generates for an inserted Booking row; the server clock
  read by \<open>NOW()\<close>; the value a column holds once a bound parameter is stored in it; and
  the engine's comparison of the INT column RoomNumber with a bound parameter that needs
  an implicit conversion.
\<close>

record env =
  connect_error :: "string option"
  exec_error :: "db \<Rightarrow> stmt \<Rightarrow> string option"
  commit_error :: "db \<Rightarrow> string option"
  rollback_error :: "string option"
  generated_id :: "db \<Rightarrow> int"
  now :: datetime
  stored_value :: "column \<Rightarrow> val \<Rightarrow> val"
  coerced_eq :: "int \<Rightarrow> val \<Rightarrow> bool"

text \<open>
  \<open>WHERE RoomNumber = %s\<close>: the column against the bound parameter. An integer is compared
  as it is and NULL equals nothing; a string, a float or a boolean is compared after the
  engine's conversion.
\<close>

fun param_eq :: "env \<Rightarrow> int \<Rightarrow> val \<Rightarrow> bool" where
  "param_eq e c (VInt n) = (c = n)"
| "param_eq e c VNull = False"
| "param_eq e c p = coerced_eq e c p"

definition joined :: "room_row \<Rightarrow> roomtype_row \<Rightarrow> room_entry" where
  "joined r rt = \<lparr>e_RoomNumber = r_RoomNumber r, e_RoomType = rt_TypeName rt,
                  e_Rate = rt_Rate rt, e_Status = r_Status r\<rparr>"

definition room_types :: "db \<Rightarrow> room_row \<Rightarrow> roomtype_row list" where
  \<comment> \<open>\<open>JOIN RoomType rt ON r.RoomTypeID = rt.RoomTypeID\<close>: the partners of one Room row\<close>
  "room_types d r = filter (\<lambda>rt. r_RoomTypeID r = rt_RoomTypeID rt) (RoomType d)"

definition select_rooms :: "db \<Rightarrow> room_entry list" where
  "select_rooms d =
     sort_key e_RoomNumber (concat (map (\<lambda>r. map (joined r) (room_types d r)) (Room d)))"

definition set_room_status :: "env \<Rightarrow> string \<Rightarrow> val \<Rightarrow> room_row \<Rightarrow> room_row" where
  "set_room_status e st p r =
     (if param_eq e (r_RoomNumber r) p then r\<lparr>r_Status := st\<rparr> else r)"

text \<open>The tables after a statement that did not raise.\<close>

fun apply_stmt :: "env \<Rightarrow> stmt \<Rightarrow> db \<Rightarrow> db" where
  "apply_stmt e (InsertBooking customer_id room_number check_in check_out total_cost) d =
     d\<lparr>Booking := Booking d @
          [\<lparr>b_BookingID = generated_id e d,
            b_CustomerID = stored_value e ColCustomerID customer_id,
            b_RoomNumber = stored_value e ColRoomNumber room_number,
            b_CheckInDate = stored_value e ColCheckInDate check_in,
            b_CheckOutDate = stored_value e ColCheckOutDate check_out,
            b_TotalCost = stored_value e ColTotalCost total_cost,
            b_BookingDate = now e\<rparr>]\<rparr>"
| "apply_stmt e (UpdateRoomStatus st p) d =
     d\<lparr>Room := map (set_room_status e st p) (Room d)\<rparr>"
| "apply_stmt e SelectRooms d = d"
| "apply_stmt e (SelectBookingRoom i) d = d"
| "apply_stmt e (DeleteBooking i) d =
     d\<lparr>Booking := filter (\<lambda>b. b_BookingID b \<noteq> i) (Booking d)\<rparr>"

text \<open>
  The result set a statement leaves on the cursor: dictionaries for the room listing
  (\<open>cursor(dictionary=True)\<close>), one-column tuples for the booking lookup.
\<close>

datatype result = NoResult | Dicts "room_entry list" | Tuples "val list list"

fun query :: "stmt \<Rightarrow> db \<Rightarrow> result" where
  "query SelectRooms d = Dicts (select_rooms d)"
| "query (SelectBookingRoom i) d =
     Tuples (map (\<lambda>b. [b_RoomNumber b]) (filter (\<lambda>b. b_BookingID b = i) (Booking d)))"
| "query q d = NoResult"

subsection \<open>Connection and cursor\<close>

datatype event = Connect | Execute stmt | Commit | Rollback | CursorClose | ConnClose

text \<open>
  An open connection with its cursor: the tables as last committed, the tables as this
  session sees them, the cursor's \<open>lastrowid\<close> and pending rows, and the calls made so far.
\<close>

record conn =
  committed :: db
  working :: db
  lastrowid :: "int option"
  rows :: result
  trace :: "event list"

definition get_db_connection :: "env \<Rightarrow> db \<Rightarrow> conn option" where
  "get_db_connection e s =
     (case connect_error e of
        Some err \<Rightarrow> None
      | None \<Rightarrow> Some \<lparr>committed = s, working = s, lastrowid = None, rows = NoResult,
                      trace = [Connect]\<rparr>)"

text \<open>
  \<open>cursor.lastrowid\<close> is the key generated by the last insert; the handlers read it only
  right after the insert, so its value after other statements is left as it was.
\<close>

fun new_lastrowid :: "env \<Rightarrow> stmt \<Rightarrow> conn \<Rightarrow> int option" where
  "new_lastrowid e (InsertBooking a b c d f) cn = Some (generated_id e (working cn))"
| "new_lastrowid e q cn = lastrowid cn"

text \<open>\<open>cursor.execute\<close>: the error raised, if any, and the connection afterwards.\<close>

definition execute :: "env \<Rightarrow> stmt \<Rightarrow> conn \<Rightarrow> string option \<times> conn" where
  "execute e q cn =
     (case exec_error e (working cn) q of
        Some err \<Rightarrow> (Some err, cn\<lparr>trace := trace cn @ [Execute q]\<rparr>)
      | None \<Rightarrow>
          (None, cn\<lparr>working := apply_stmt e q (working cn),
                    lastrowid := new_lastrowid e q cn,
                    rows := query q (working cn),
                    trace := trace cn @ [Execute q]\<rparr>))"

definition fetchone :: "conn \<Rightarrow> val list option \<times> conn" where
  "fetchone cn =
     (case rows cn of
        Tuples (t # ts) \<Rightarrow> (Some t, cn\<lparr>rows := Tuples ts\<rparr>)
      | _ \<Rightarrow> (None, cn))"

definition fetchall :: "conn \<Rightarrow> room_entry list \<times> conn" where
  "fetchall cn =
     (case rows cn of
        Dicts es \<Rightarrow> (es, cn\<lparr>rows := Dicts []\<rparr>)
      | _ \<Rightarrow> ([], cn))"

definition commit :: "env \<Rightarrow> conn \<Rightarrow> string option \<times> conn" where
  "commit e cn =
     (case commit_error e (working cn) of
        Some err \<Rightarrow> (Some err, cn\<lparr>trace := trace cn @ [Commit]\<rparr>)
      | None \<Rightarrow> (None, cn\<lparr>committed := working cn, trace := trace cn @ [Commit]\<rparr>))"

text \<open>
  \<open>conn.rollback\<close>: the session's tables go back to what was last committed, unless the
  call itself raises (on a lost connection, say), which leaves the session as it is.
\<close>

definition rollback :: "env \<Rightarrow> conn \<Rightarrow> string option \<times> conn" where
  "rollback e cn =
     (case rollback_error e of
        Some err \<Rightarrow> (Some err, cn\<lparr>trace := trace cn @ [Rollback]\<rparr>)
      | None \<Rightarrow> (None, cn\<lparr>working := committed cn, trace := trace cn @ [Rollback]\<rparr>))"

text \<open>
  The \<open>finally\<close> block, \<open>cursor.close(); conn.close()\<close>. It yields what is stored
  afterwards (what was committed), the tables the session held when it was closed, and the
  calls made.
\<close>

definition close_all :: "conn \<Rightarrow> db \<times> db \<times> event list" where
  "close_all cn = (committed cn, working cn, trace cn @ [CursorClose, ConnClose])"

subsection \<open>HTTP responses\<close>

datatype body =
    ErrorBody string                      \<comment> \<open>\<open>{"error": e}\<close>\<close>
  | ErrorDetails string string            \<comment> \<open>\<open>{"error": e, "details": str(err)}\<close>\<close>
  | BookingCreated string "int option"    \<comment> \<open>\<open>{"message": m, "bookingId": id}\<close>\<close>
  | MessageBody string                    \<comment> \<open>\<open>{"message": m}\<close>\<close>
  | RoomList "room_entry list"            \<comment> \<open>the JSON array of room dictionaries\<close>
  | ServerErrorPage                       \<comment> \<open>Flask's page for an unhandled exception\<close>

type_synonym response = "body \<times> nat"

text \<open>
  What a handler yields: the response, the stored database afterwards, the tables the
  session held when the connection was closed (the stored database when none was opened),
  and the calls made on the connection.
\<close>

type_synonym run = "response \<times> db \<times> db \<times> event list"

text \<open>
  The outcome of a \<open>try\<close> block: it returned a response, or raised the database error. In
  the \<open>except\<close> blocks below, \<open>conn.rollback()\<close> is not guarded: when it raises, the new
  exception leaves the view function after the \<open>finally\<close> block has run.
\<close>

datatype outcome = Returned response | Raised string

subsection \<open>POST /api/bookings\<close>

definition add_booking_try ::
  "env \<Rightarrow> (string \<rightharpoonup> val) \<Rightarrow> val \<Rightarrow> val \<Rightarrow> val \<Rightarrow> val \<Rightarrow> conn \<Rightarrow> outcome \<times> conn" where
  "add_booking_try e data room_number check_in check_out total_cost cn =
     (let customer_id = dict_get data ''customerId'' in
      case execute e (InsertBooking customer_id room_number check_in check_out total_cost) cn of
        (Some err, c1) \<Rightarrow> (Raised err, c1)
      | (None, c1) \<Rightarrow>
          (let booking_id = lastrowid c1 in
           case execute e (UpdateRoomStatus ''Occupied'' room_number) c1 of
             (Some err, c2) \<Rightarrow> (Raised err, c2)
           | (None, c2) \<Rightarrow>
               (case commit e c2 of
                  (Some err, c3) \<Rightarrow> (Raised err, c3)
                | (None, c3) \<Rightarrow>
                    (Returned (BookingCreated ''Booking successful'' booking_id, 201), c3))))"

definition add_booking :: "env \<Rightarrow> (string \<rightharpoonup> val) \<Rightarrow> db \<Rightarrow> run" where
  "add_booking e data s =
     (let guest_name = dict_get data ''guestName'';
          room_number = dict_get data ''roomNumber'';
          check_in = dict_get data ''checkInDate'';
          check_out = dict_get data ''checkOutDate'';
          total_cost = dict_get data ''totalCost''
      in case get_db_connection e s of
           None \<Rightarrow> ((ErrorBody ''Database connection failed'', 500), s, s, [Connect])
         | Some cn \<Rightarrow>
             (case add_booking_try e data room_number check_in check_out total_cost cn of
                (Returned r, c) \<Rightarrow> (r, close_all c)
              | (Raised err, c) \<Rightarrow>
                  (case rollback e c of
                     (Some err2, c') \<Rightarrow> ((ServerErrorPage, 500), close_all c')
                   | (None, c') \<Rightarrow>
                       ((ErrorDetails ''Failed to process booking'' err, 400),
                        close_all c'))))"

subsection \<open>GET /api/rooms\<close>

definition get_room_availability_try :: "env \<Rightarrow> conn \<Rightarrow> outcome \<times> conn" where
  "get_room_availability_try e cn =
     (case execute e SelectRooms cn of
        (Some err, c1) \<Rightarrow> (Raised err, c1)
      | (None, c1) \<Rightarrow>
          (case fetchall c1 of (rooms, c2) \<Rightarrow> (Returned (RoomList rooms, 200), c2)))"

definition get_room_availability :: "env \<Rightarrow> db \<Rightarrow> run" where
  "get_room_availability e s =
     (case get_db_connection e s of
        None \<Rightarrow> ((ErrorBody ''Database connection failed'', 500), s, s, [Connect])
      | Some cn \<Rightarrow>
          (case get_room_availability_try e cn of
             (Returned r, c) \<Rightarrow> (r, close_all c)
           | (Raised err, c) \<Rightarrow>
               ((ErrorDetails ''Failed to fetch rooms'' err, 500), close_all c)))"

subsection \<open>DELETE /api/bookings/<booking_id>\<close>

definition cancel_booking_try :: "env \<Rightarrow> int \<Rightarrow> conn \<Rightarrow> outcome \<times> conn" where
  "cancel_booking_try e booking_id cn =
     (case execute e (SelectBookingRoom booking_id) cn of
        (Some err, c1) \<Rightarrow> (Raised err, c1)
      | (None, c1) \<Rightarrow>
          (case fetchone c1 of
             (None, c2) \<Rightarrow> (Returned (ErrorBody ''Booking not found'', 404), c2)
           | (Some [], c2) \<Rightarrow> (Returned (ErrorBody ''Booking not found'', 404), c2)
           | (Some (room_number # rest), c2) \<Rightarrow>
               (case execute e (DeleteBooking booking_id) c2 of
                  (Some err, c3) \<Rightarrow> (Raised err, c3)
                | (None, c3) \<Rightarrow>
                    (case execute e (UpdateRoomStatus ''Vacant'' room_number) c3 of
                       (Some err, c4) \<Rightarrow> (Raised err, c4)
                     | (None, c4) \<Rightarrow>
                         (case commit e c4 of
                            (Some err, c5) \<Rightarrow> (Raised err, c5)
                          | (None, c5) \<Rightarrow>
                              (Returned
                                 (MessageBody
                                    (''Booking '' @ str_int booking_id @
                                     '' cancelled successfully. Room '' @ py_str room_number @
                                     '' is now Vacant.''), 200), c5))))))"

definition cancel_booking :: "env \<Rightarrow> int \<Rightarrow> db \<Rightarrow> run" where
  "cancel_booking e booking_id s =
     (case get_db_connection e s of
        None \<Rightarrow> ((ErrorBody ''Database connection failed'', 500), s, s, [Connect])
      | Some cn \<Rightarrow>
          (case cancel_booking_try e booking_id cn of
             (Returned r, c) \<Rightarrow> (r, close_all c)
           | (Raised err, c) \<Rightarrow>
               (case rollback e c of
                  (Some err2, c') \<Rightarrow> ((ServerErrorPage, 500), close_all c')
                | (None, c') \<Rightarrow>
                    ((ErrorDetails ''Failed to cancel booking'' err, 400),
                     close_all c'))))"

subsection \<open>Vocabulary of the properties\<close>

text \<open>The two statements \<open>add_booking\<close> binds for a request body, and the update of
  \<open>cancel_booking\<close>.\<close>

definition booking_insert :: "(string \<rightharpoonup> val) \<Rightarrow> stmt" where
  "booking_insert data =
     InsertBooking (dict_get data ''customerId'') (dict_get data ''roomNumber'')
       (dict_get data ''checkInDate'') (dict_get data ''checkOutDate'')
       (dict_get data ''totalCost'')"

definition room_occupy :: "(string \<rightharpoonup> val) \<Rightarrow> stmt" where
  "room_occupy data = UpdateRoomStatus ''Occupied'' (dict_get data ''roomNumber'')"

definition room_vacate :: "val \<Rightarrow> stmt" where
  "room_vacate room_number = UpdateRoomStatus ''Vacant'' room_number"

text \<open>The parts of what a handler returns.\<close>

definition status_of :: "run \<Rightarrow> nat" where
  "status_of out = snd (fst out)"

definition body_of :: "run \<Rightarrow> body" where
  "body_of out = fst (fst out)"

definition db_after :: "run \<Rightarrow> db" where
  "db_after out = fst (snd out)"

definition session_after :: "run \<Rightarrow> db" where
  "session_after out = fst (snd (snd out))"

definition calls_of :: "run \<Rightarrow> event list" where
  "calls_of out = snd (snd (snd out))"

text \<open>
  The answer of an \<open>except\<close> block that caught \<open>err\<close>, and the tables the session holds
  after it, by whether the rollback went through.
\<close>

definition except_response :: "env \<Rightarrow> string \<Rightarrow> string \<Rightarrow> response" where
  "except_response e msg err =
     (case rollback_error e of
        None \<Rightarrow> (ErrorDetails msg err, 400)
      | Some err2 \<Rightarrow> (ServerErrorPage, 500))"

definition except_session :: "env \<Rightarrow> db \<Rightarrow> db \<Rightarrow> db" where
  "except_session e s w = (case rollback_error e of None \<Rightarrow> s | Some err2 \<Rightarrow> w)"

text \<open>
  The first error the server raises when the statements are run in order, from tables
  \<open>d\<close>, and then committed; \<open>None\<close> when the whole unit goes through.
\<close>

fun first_error :: "env \<Rightarrow> stmt list \<Rightarrow> db \<Rightarrow> string option" where
  "first_error e [] d = commit_error e d"
| "first_error e (q # qs) d =
     (case exec_error e d q of
        Some err \<Rightarrow> Some err
      | None \<Rightarrow> first_error e qs (apply_stmt e q d))"

text \<open>Every entry a listing holds for room \<open>p\<close> shows status \<open>st\<close>.\<close>

definition listed_status :: "env \<Rightarrow> room_entry list \<Rightarrow> val \<Rightarrow> string \<Rightarrow> bool" where
  "listed_status e es p st =
     (\<forall>x \<in> set es. param_eq e (e_RoomNumber x) p \<longrightarrow> e_Status x = st)"

definition set_entry_status :: "env \<Rightarrow> string \<Rightarrow> val \<Rightarrow> room_entry \<Rightarrow> room_entry" where
  "set_entry_status e st p x =
     (if param_eq e (e_RoomNumber x) p then x\<lparr>e_Status := st\<rparr> else x)"

text \<open>The calls that change rows or publish changes.\<close>

fun mutation :: "event \<Rightarrow> bool" where
  "mutation (Execute (InsertBooking a b c d f)) = True"
| "mutation (Execute (UpdateRoomStatus st p)) = True"
| "mutation (Execute (DeleteBooking i)) = True"
| "mutation Commit = True"
| "mutation ev = False"

subsection \<open>A small hotel, for concrete runs\<close>

definition demo_db :: db where
  "demo_db =
     \<lparr>Booking = [],
      Room = [\<lparr>r_RoomNumber = 102, r_RoomTypeID = 2, r_Status = ''Occupied''\<rparr>,
              \<lparr>r_RoomNumber = 101, r_RoomTypeID = 1, r_Status = ''Vacant''\<rparr>],
      RoomType = [\<lparr>rt_RoomTypeID = 1, rt_TypeName = ''Standard'', rt_Rate = 125\<rparr>,
                  \<lparr>rt_RoomTypeID = 2, rt_TypeName = ''Deluxe'', rt_Rate = 180\<rparr>],
      Customer = [\<lparr>c_CustomerID = 7\<rparr>]\<rparr>"

text \<open>
  An engine that raises nothing, stores parameters as they are given, and takes a string
  for a room number when it is that number in decimal digits.
\<close>

definition demo_env :: env where
  "demo_env =
     \<lparr>connect_error = None, exec_error = (\<lambda>d q. None), commit_error = (\<lambda>d. None),
      rollback_error = None,
      generated_id = (\<lambda>d. 1 + int (length (Booking d))), now = 1717200000,
      stored_value = (\<lambda>col p. p),
      coerced_eq = (\<lambda>c p. p = VStr (str_int c))\<rparr>"

definition demo_request :: "string \<rightharpoonup> val" where
  "demo_request =
     [''guestName'' \<mapsto> VStr ''A. Lee'', ''roomNumber'' \<mapsto> VInt 101,
      ''checkInDate'' \<mapsto> VStr ''2024-06-01'', ''checkOutDate'' \<mapsto> VStr ''2024-06-03'',
      ''totalCost'' \<mapsto> VNum ''250.0'', ''customerId'' \<mapsto> VInt 7]"

definition booking1 :: booking_row where
  "booking1 =
     \<lparr>b_BookingID = 1, b_CustomerID = VInt 7, b_RoomNumber = VInt 101,
      b_CheckInDate = VStr ''2024-06-01'', b_CheckOutDate = VStr ''2024-06-03'',
      b_TotalCost = VNum ''250.0'', b_BookingDate = 1717200000\<rparr>"

definition booking2 :: booking_row where
  "booking2 =
     \<lparr>b_BookingID = 2, b_CustomerID = VInt 7, b_RoomNumber = VInt 101,
      b_CheckInDate = VStr ''2024-06-02'', b_CheckOutDate = VStr ''2024-06-04'',
      b_TotalCost = VNum ''250.0'', b_BookingDate = 1717200060\<rparr>"

definition occupied_rooms :: "room_row list" where
  "occupied_rooms =
     [\<lparr>r_RoomNumber = 102, r_RoomTypeID = 2, r_Status = ''Occupied''\<rparr>,
      \<lparr>r_RoomNumber = 101, r_RoomTypeID = 1, r_Status = ''Occupied''\<rparr>]"

definition booked_db :: db where
  "booked_db = demo_db\<lparr>Booking := [booking1], Room := occupied_rooms\<rparr>"

definition double_booked_db :: db where
  "double_booked_db = demo_db\<lparr>Booking := [booking1, booking2], Room := occupied_rooms\<rparr>"

definition update_fails :: "db \<Rightarrow> stmt \<Rightarrow> string option" where
  "update_fails d q =
     (case q of
        UpdateRoomStatus st p \<Rightarrow> Some ''1205 (HY000): Lock wait timeout exceeded''
      | _ \<Rightarrow> None)"

definition offline_env :: env where
  "offline_env = demo_env\<lparr>connect_error := Some ''2003: Cannot connect to MySQL server on localhost''\<rparr>"

definition lookup_fails :: "db \<Rightarrow> stmt \<Rightarrow> string option" where
  "lookup_fails d q =
     (case q of
        SelectRooms \<Rightarrow> Some ''1317 (70100): Query execution was interrupted''
      | SelectBookingRoom i \<Rightarrow> Some ''1317 (70100): Query execution was interrupted''
      | _ \<Rightarrow> None)"

text \<open>A connection that is lost while the status update runs: the rollback raises too.\<close>

definition update_lost :: "db \<Rightarrow> stmt \<Rightarrow> string option" where
  "update_lost d q =
     (case q of
        UpdateRoomStatus st p \<Rightarrow>
          Some ''2013 (HY000): Lost connection to MySQL server during query''
      | _ \<Rightarrow> None)"

definition lost_env :: env where
  "lost_env =
     demo_env\<lparr>exec_error := update_lost,
              rollback_error := Some ''2055: Lost connection to MySQL server''\<rparr>"


section \<open>Properties\<close>

subsection \<open>Every path of \<open>add_booking\<close>\<close>

lemmas handler_defs = get_db_connection_def execute_def commit_def rollback_def close_all_def
  fetchone_def fetchall_def Let_def except_response_def except_session_def

lemma except_response_status [simp]:
  "snd (except_response e msg err) \<noteq> 200" "snd (except_response e msg err) \<noteq> 201"
  by (simp_all add: except_response_def split: option.split)

lemma except_rolled_back:
  "rollback_error e = None \<Longrightarrow> except_response e msg err = (ErrorDetails msg err, 400)"
  "rollback_error e = None \<Longrightarrow> except_session e s w = s"
  by (simp_all add: except_response_def except_session_def)

lemma except_not_rolled_back:
  "rollback_error e \<noteq> None \<Longrightarrow> except_response e msg err = (ServerErrorPage, 500)"
  "rollback_error e \<noteq> None \<Longrightarrow> except_session e s w = w"
  by (auto simp add: except_response_def except_session_def)

lemma add_booking_no_connection:
  "connect_error e = Some x \<Longrightarrow>
   add_booking e data s = ((ErrorBody ''Database connection failed'', 500), s, s, [Connect])"
  by (simp add: add_booking_def get_db_connection_def)

lemma add_booking_insert_raises:
  "connect_error e = None \<Longrightarrow> exec_error e s (booking_insert data) = Some err \<Longrightarrow>
   add_booking e data s =
     (except_response e ''Failed to process booking'' err, s, except_session e s s,
      [Connect, Execute (booking_insert data), Rollback, CursorClose, ConnClose])"
  by (simp add: add_booking_def add_booking_try_def booking_insert_def handler_defs split: option.split)

lemma add_booking_update_raises:
  "connect_error e = None \<Longrightarrow> exec_error e s (booking_insert data) = None \<Longrightarrow>
   exec_error e (apply_stmt e (booking_insert data) s) (room_occupy data) = Some err \<Longrightarrow>
   add_booking e data s =
     (except_response e ''Failed to process booking'' err, s,
      except_session e s (apply_stmt e (booking_insert data) s),
      [Connect, Execute (booking_insert data), Execute (room_occupy data),
       Rollback, CursorClose, ConnClose])"
  by (simp add: add_booking_def add_booking_try_def booking_insert_def room_occupy_def handler_defs split: option.split)

lemma add_booking_commit_raises:
  "connect_error e = None \<Longrightarrow> exec_error e s (booking_insert data) = None \<Longrightarrow>
   exec_error e (apply_stmt e (booking_insert data) s) (room_occupy data) = None \<Longrightarrow>
   commit_error e (apply_stmt e (room_occupy data) (apply_stmt e (booking_insert data) s)) = Some err \<Longrightarrow>
   add_booking e data s =
     (except_response e ''Failed to process booking'' err, s,
      except_session e s
        (apply_stmt e (room_occupy data) (apply_stmt e (booking_insert data) s)),
      [Connect, Execute (booking_insert data), Execute (room_occupy data), Commit,
       Rollback, CursorClose, ConnClose])"
  by (simp add: add_booking_def add_booking_try_def booking_insert_def room_occupy_def handler_defs split: option.split)

lemma add_booking_commits:
  "connect_error e = None \<Longrightarrow> exec_error e s (booking_insert data) = None \<Longrightarrow>
   exec_error e (apply_stmt e (booking_insert data) s) (room_occupy data) = None \<Longrightarrow>
   commit_error e (apply_stmt e (room_occupy data) (apply_stmt e (booking_insert data) s)) = None \<Longrightarrow>
   add_booking e data s =
     ((BookingCreated ''Booking successful'' (Some (generated_id e s)), 201),
      apply_stmt e (room_occupy data) (apply_stmt e (booking_insert data) s),
      apply_stmt e (room_occupy data) (apply_stmt e (booking_insert data) s),
      [Connect, Execute (booking_insert data), Execute (room_occupy data), Commit,
       CursorClose, ConnClose])"
  by (simp add: add_booking_def add_booking_try_def booking_insert_def room_occupy_def handler_defs)

lemma add_booking_201:
  assumes "status_of (add_booking e data s) = 201"
  shows "connect_error e = None \<and> exec_error e s (booking_insert data) = None \<and>
   exec_error e (apply_stmt e (booking_insert data) s) (room_occupy data) = None \<and>
   commit_error e (apply_stmt e (room_occupy data) (apply_stmt e (booking_insert data) s)) = None"
proof -
  have c: "connect_error e = None"
    using assms by (cases "connect_error e") (simp_all add: add_booking_no_connection status_of_def)
  have i: "exec_error e s (booking_insert data) = None"
    using assms c by (cases "exec_error e s (booking_insert data)")
      (simp_all add: add_booking_insert_raises status_of_def)
  have u: "exec_error e (apply_stmt e (booking_insert data) s) (room_occupy data) = None"
    using assms c i
    by (cases "exec_error e (apply_stmt e (booking_insert data) s) (room_occupy data)")
      (simp_all add: add_booking_update_raises status_of_def)
  have "commit_error e (apply_stmt e (room_occupy data) (apply_stmt e (booking_insert data) s)) = None"
    using assms c i u
    by (cases "commit_error e (apply_stmt e (room_occupy data) (apply_stmt e (booking_insert data) s))")
      (simp_all add: add_booking_commit_raises status_of_def)
  with c i u show ?thesis by simp
qed

lemma first_error_two:
  "first_error e [q1, q2] d =
     (case exec_error e d q1 of
        Some err \<Rightarrow> Some err
      | None \<Rightarrow>
          (case exec_error e (apply_stmt e q1 d) q2 of
             Some err \<Rightarrow> Some err
           | None \<Rightarrow> commit_error e (apply_stmt e q2 (apply_stmt e q1 d))))"
  by (simp split: option.split)

lemma add_booking_raises:
  assumes "connect_error e = None"
    and "first_error e [booking_insert data, room_occupy data] s = Some err"
  shows "db_after (add_booking e data s) = s \<and>
         Rollback \<in> set (calls_of (add_booking e data s)) \<and>
         body_of (add_booking e data s) =
           fst (except_response e ''Failed to process booking'' err) \<and>
         status_of (add_booking e data s) =
           snd (except_response e ''Failed to process booking'' err) \<and>
         (rollback_error e = None \<longrightarrow> session_after (add_booking e data s) = s)"
proof -
  consider (ins) "exec_error e s (booking_insert data) = Some err"
    | (upd) "exec_error e s (booking_insert data) = None"
        "exec_error e (apply_stmt e (booking_insert data) s) (room_occupy data) = Some err"
    | (com) "exec_error e s (booking_insert data) = None"
        "exec_error e (apply_stmt e (booking_insert data) s) (room_occupy data) = None"
        "commit_error e (apply_stmt e (room_occupy data) (apply_stmt e (booking_insert data) s)) =
           Some err"
    using assms(2) unfolding first_error_two by (auto split: option.splits)
  then show ?thesis
  proof cases
    case ins
    with assms(1) show ?thesis
      by (simp add: add_booking_insert_raises body_of_def status_of_def db_after_def
            session_after_def calls_of_def except_rolled_back)
  next
    case upd
    with assms(1) show ?thesis
      by (simp add: add_booking_update_raises body_of_def status_of_def db_after_def
            session_after_def calls_of_def except_rolled_back)
  next
    case com
    with assms(1) show ?thesis
      by (simp add: add_booking_commit_raises body_of_def status_of_def db_after_def
            session_after_def calls_of_def except_rolled_back)
  qed
qed

lemma add_booking_goes_through:
  assumes "connect_error e = None"
    and "first_error e [booking_insert data, room_occupy data] s = None"
  shows "add_booking e data s =
     ((BookingCreated ''Booking successful'' (Some (generated_id e s)), 201),
      apply_stmt e (room_occupy data) (apply_stmt e (booking_insert data) s),
      apply_stmt e (room_occupy data) (apply_stmt e (booking_insert data) s),
      [Connect, Execute (booking_insert data), Execute (room_occupy data), Commit,
       CursorClose, ConnClose])"
proof -
  from assms(2) have "exec_error e s (booking_insert data) = None"
    "exec_error e (apply_stmt e (booking_insert data) s) (room_occupy data) = None"
    "commit_error e (apply_stmt e (room_occupy data) (apply_stmt e (booking_insert data) s)) = None"
    unfolding first_error_two by (auto split: option.splits)
  with assms(1) show ?thesis by (rule add_booking_commits)
qed

lemma add_booking_calls_distinct: "distinct (calls_of (add_booking e data s))"
proof -
  have neq: "booking_insert data \<noteq> room_occupy data"
    by (simp add: booking_insert_def room_occupy_def)
  consider (offline) x where "connect_error e = Some x"
    | (ins) err where "connect_error e = None" "exec_error e s (booking_insert data) = Some err"
    | (upd) err where "connect_error e = None" "exec_error e s (booking_insert data) = None"
        "exec_error e (apply_stmt e (booking_insert data) s) (room_occupy data) = Some err"
    | (com) err where "connect_error e = None" "exec_error e s (booking_insert data) = None"
        "exec_error e (apply_stmt e (booking_insert data) s) (room_occupy data) = None"
        "commit_error e (apply_stmt e (room_occupy data) (apply_stmt e (booking_insert data) s)) =
           Some err"
    | (through) "connect_error e = None" "exec_error e s (booking_insert data) = None"
        "exec_error e (apply_stmt e (booking_insert data) s) (room_occupy data) = None"
        "commit_error e (apply_stmt e (room_occupy data) (apply_stmt e (booking_insert data) s)) =
           None"
    by (cases "connect_error e"; cases "exec_error e s (booking_insert data)";
        cases "exec_error e (apply_stmt e (booking_insert data) s) (room_occupy data)";
        cases "commit_error e (apply_stmt e (room_occupy data)
                 (apply_stmt e (booking_insert data) s))") auto
  then show ?thesis
  proof cases
    case offline
    then show ?thesis by (simp add: add_booking_no_connection calls_of_def)
  next
    case ins
    then show ?thesis by (simp add: add_booking_insert_raises calls_of_def)
  next
    case upd
    then show ?thesis by (simp add: add_booking_update_raises calls_of_def neq)
  next
    case com
    then show ?thesis by (simp add: add_booking_commit_raises calls_of_def neq)
  next
    case through
    then show ?thesis by (simp add: add_booking_commits calls_of_def neq)
  qed
qed

subsection \<open>Every path of \<open>get_room_availability\<close>\<close>

lemma get_room_availability_no_connection:
  "connect_error e = Some x \<Longrightarrow>
   get_room_availability e s = ((ErrorBody ''Database connection failed'', 500), s, s, [Connect])"
  by (simp add: get_room_availability_def get_db_connection_def)

lemma get_room_availability_select_raises:
  "connect_error e = None \<Longrightarrow> exec_error e s SelectRooms = Some err \<Longrightarrow>
   get_room_availability e s =
     ((ErrorDetails ''Failed to fetch rooms'' err, 500), s, s,
      [Connect, Execute SelectRooms, CursorClose, ConnClose])"
  by (simp add: get_room_availability_def get_room_availability_try_def handler_defs)

lemma get_room_availability_returns:
  "connect_error e = None \<Longrightarrow> exec_error e s SelectRooms = None \<Longrightarrow>
   get_room_availability e s =
     ((RoomList (select_rooms s), 200), s, s, [Connect, Execute SelectRooms, CursorClose, ConnClose])"
  by (simp add: get_room_availability_def get_room_availability_try_def handler_defs)

lemma get_room_availability_200:
  assumes "status_of (get_room_availability e s) = 200"
  shows "body_of (get_room_availability e s) = RoomList (select_rooms s)"
proof -
  have c: "connect_error e = None"
    using assms by (cases "connect_error e")
      (simp_all add: get_room_availability_no_connection status_of_def)
  have "exec_error e s SelectRooms = None"
    using assms c by (cases "exec_error e s SelectRooms")
      (simp_all add: get_room_availability_select_raises status_of_def)
  with c show ?thesis by (simp add: get_room_availability_returns body_of_def)
qed

lemma get_room_availability_calls_distinct:
  "distinct (calls_of (get_room_availability e s))"
proof (cases "connect_error e")
  case (Some x)
  then show ?thesis by (simp add: get_room_availability_no_connection calls_of_def)
next
  case None
  then show ?thesis
    by (cases "exec_error e s SelectRooms")
      (simp_all add: get_room_availability_returns get_room_availability_select_raises
         calls_of_def)
qed

subsection \<open>Every path of \<open>cancel_booking\<close>\<close>

lemma find_filter: "find P xs = (case filter P xs of [] \<Rightarrow> None | x # _ \<Rightarrow> Some x)"
  by (induction xs) auto

lemma lookup_rows:
  "find (\<lambda>b. b_BookingID b = i) (Booking s) = Some b \<Longrightarrow>
   \<exists>ts. map (\<lambda>b. [b_RoomNumber b]) (filter (\<lambda>b. b_BookingID b = i) (Booking s)) =
        [b_RoomNumber b] # ts"
  by (auto simp add: find_filter split: list.splits)

lemma lookup_no_rows:
  "find (\<lambda>b. b_BookingID b = i) (Booking s) = None \<Longrightarrow>
   map (\<lambda>b. [b_RoomNumber b]) (filter (\<lambda>b. b_BookingID b = i) (Booking s)) = []"
  by (auto simp add: find_filter split: list.splits)

lemma cancel_booking_no_connection:
  "connect_error e = Some x \<Longrightarrow>
   cancel_booking e i s = ((ErrorBody ''Database connection failed'', 500), s, s, [Connect])"
  by (simp add: cancel_booking_def get_db_connection_def)

lemma cancel_booking_select_raises:
  "connect_error e = None \<Longrightarrow> exec_error e s (SelectBookingRoom i) = Some err \<Longrightarrow>
   cancel_booking e i s =
     (except_response e ''Failed to cancel booking'' err, s, except_session e s s,
      [Connect, Execute (SelectBookingRoom i), Rollback, CursorClose, ConnClose])"
  by (simp add: cancel_booking_def cancel_booking_try_def handler_defs split: option.split)

lemma cancel_booking_not_found:
  "connect_error e = None \<Longrightarrow> exec_error e s (SelectBookingRoom i) = None \<Longrightarrow>
   find (\<lambda>b. b_BookingID b = i) (Booking s) = None \<Longrightarrow>
   cancel_booking e i s =
     ((ErrorBody ''Booking not found'', 404), s, s,
      [Connect, Execute (SelectBookingRoom i), CursorClose, ConnClose])"
  by (simp add: cancel_booking_def cancel_booking_try_def handler_defs lookup_no_rows)

lemma cancel_booking_delete_raises:
  assumes "connect_error e = None" "exec_error e s (SelectBookingRoom i) = None"
    and "find (\<lambda>b. b_BookingID b = i) (Booking s) = Some b"
    and "exec_error e s (DeleteBooking i) = Some err"
  shows "cancel_booking e i s =
     (except_response e ''Failed to cancel booking'' err, s, except_session e s s,
      [Connect, Execute (SelectBookingRoom i), Execute (DeleteBooking i),
       Rollback, CursorClose, ConnClose])"
proof -
  from lookup_rows [OF assms(3)] obtain ts where
    "map (\<lambda>b. [b_RoomNumber b]) (filter (\<lambda>b. b_BookingID b = i) (Booking s)) =
        [b_RoomNumber b] # ts" ..
  with assms show ?thesis
    by (simp add: cancel_booking_def cancel_booking_try_def handler_defs split: option.split)
qed

lemma cancel_booking_update_raises:
  assumes "connect_error e = None" "exec_error e s (SelectBookingRoom i) = None"
    and "find (\<lambda>b. b_BookingID b = i) (Booking s) = Some b"
    and "exec_error e s (DeleteBooking i) = None"
    and "exec_error e (apply_stmt e (DeleteBooking i) s) (room_vacate (b_RoomNumber b)) = Some err"
  shows "cancel_booking e i s =
     (except_response e ''Failed to cancel booking'' err, s,
      except_session e s (apply_stmt e (DeleteBooking i) s),
      [Connect, Execute (SelectBookingRoom i), Execute (DeleteBooking i),
       Execute (room_vacate (b_RoomNumber b)), Rollback, CursorClose, ConnClose])"
proof -
  from lookup_rows [OF assms(3)] obtain ts where
    "map (\<lambda>b. [b_RoomNumber b]) (filter (\<lambda>b. b_BookingID b = i) (Booking s)) =
        [b_RoomNumber b] # ts" ..
  with assms show ?thesis
    by (simp add: cancel_booking_def cancel_booking_try_def handler_defs room_vacate_def split: option.split)
qed

lemma cancel_booking_commit_raises:
  assumes "connect_error e = None" "exec_error e s (SelectBookingRoom i) = None"
    and "find (\<lambda>b. b_BookingID b = i) (Booking s) = Some b"
    and "exec_error e s (DeleteBooking i) = None"
    and "exec_error e (apply_stmt e (DeleteBooking i) s) (room_vacate (b_RoomNumber b)) = None"
    and "commit_error e (apply_stmt e (room_vacate (b_RoomNumber b))
           (apply_stmt e (DeleteBooking i) s)) = Some err"
  shows "cancel_booking e i s =
     (except_response e ''Failed to cancel booking'' err, s,
      except_session e s
        (apply_stmt e (room_vacate (b_RoomNumber b)) (apply_stmt e (DeleteBooking i) s)),
      [Connect, Execute (SelectBookingRoom i), Execute (DeleteBooking i),
       Execute (room_vacate (b_RoomNumber b)), Commit, Rollback, CursorClose, ConnClose])"
proof -
  from lookup_rows [OF assms(3)] obtain ts where
    "map (\<lambda>b. [b_RoomNumber b]) (filter (\<lambda>b. b_BookingID b = i) (Booking s)) =
        [b_RoomNumber b] # ts" ..
  with assms show ?thesis
    by (simp add: cancel_booking_def cancel_booking_try_def handler_defs room_vacate_def split: option.split)
qed

lemma cancel_booking_commits:
  assumes "connect_error e = None" "exec_error e s (SelectBookingRoom i) = None"
    and "find (\<lambda>b. b_BookingID b = i) (Booking s) = Some b"
    and "exec_error e s (DeleteBooking i) = None"
    and "exec_error e (apply_stmt e (DeleteBooking i) s) (room_vacate (b_RoomNumber b)) = None"
    and "commit_error e (apply_stmt e (room_vacate (b_RoomNumber b))
           (apply_stmt e (DeleteBooking i) s)) = None"
  shows "cancel_booking e i s =
     ((MessageBody (''Booking '' @ str_int i @ '' cancelled successfully. Room '' @
                    py_str (b_RoomNumber b) @ '' is now Vacant.''), 200),
      apply_stmt e (room_vacate (b_RoomNumber b)) (apply_stmt e (DeleteBooking i) s),
      apply_stmt e (room_vacate (b_RoomNumber b)) (apply_stmt e (DeleteBooking i) s),
      [Connect, Execute (SelectBookingRoom i), Execute (DeleteBooking i),
       Execute (room_vacate (b_RoomNumber b)), Commit, CursorClose, ConnClose])"
proof -
  from lookup_rows [OF assms(3)] obtain ts where
    "map (\<lambda>b. [b_RoomNumber b]) (filter (\<lambda>b. b_BookingID b = i) (Booking s)) =
        [b_RoomNumber b] # ts" ..
  with assms show ?thesis
    by (simp add: cancel_booking_def cancel_booking_try_def handler_defs room_vacate_def)
qed

lemma cancel_booking_200:
  assumes "status_of (cancel_booking e i s) = 200"
  shows "\<exists>b. find (\<lambda>b. b_BookingID b = i) (Booking s) = Some b \<and>
     cancel_booking e i s =
     ((MessageBody (''Booking '' @ str_int i @ '' cancelled successfully. Room '' @
                    py_str (b_RoomNumber b) @ '' is now Vacant.''), 200),
      apply_stmt e (room_vacate (b_RoomNumber b)) (apply_stmt e (DeleteBooking i) s),
      apply_stmt e (room_vacate (b_RoomNumber b)) (apply_stmt e (DeleteBooking i) s),
      [Connect, Execute (SelectBookingRoom i), Execute (DeleteBooking i),
       Execute (room_vacate (b_RoomNumber b)), Commit, CursorClose, ConnClose])"
proof -
  have c: "connect_error e = None"
    using assms by (cases "connect_error e")
      (simp_all add: cancel_booking_no_connection status_of_def)
  have q: "exec_error e s (SelectBookingRoom i) = None"
    using assms c by (cases "exec_error e s (SelectBookingRoom i)")
      (simp_all add: cancel_booking_select_raises status_of_def)
  obtain b where b: "find (\<lambda>b. b_BookingID b = i) (Booking s) = Some b"
    using assms c q by (cases "find (\<lambda>b. b_BookingID b = i) (Booking s)")
      (simp_all add: cancel_booking_not_found status_of_def)
  have d: "exec_error e s (DeleteBooking i) = None"
    using assms c q b by (cases "exec_error e s (DeleteBooking i)")
      (simp_all add: cancel_booking_delete_raises status_of_def)
  have u: "exec_error e (apply_stmt e (DeleteBooking i) s) (room_vacate (b_RoomNumber b)) = None"
    using assms c q b d
    by (cases "exec_error e (apply_stmt e (DeleteBooking i) s) (room_vacate (b_RoomNumber b))")
      (simp_all add: cancel_booking_update_raises status_of_def)
  have m: "commit_error e (apply_stmt e (room_vacate (b_RoomNumber b))
           (apply_stmt e (DeleteBooking i) s)) = None"
    using assms c q b d u
    by (cases "commit_error e (apply_stmt e (room_vacate (b_RoomNumber b))
           (apply_stmt e (DeleteBooking i) s))")
      (simp_all add: cancel_booking_commit_raises status_of_def)
  from cancel_booking_commits [OF c q b d u m] b show ?thesis by blast
qed

lemma cancel_booking_raises:
  assumes "connect_error e = None" "exec_error e s (SelectBookingRoom i) = None"
    and "find (\<lambda>b. b_BookingID b = i) (Booking s) = Some b"
    and "first_error e [DeleteBooking i, room_vacate (b_RoomNumber b)] s = Some err"
  shows "db_after (cancel_booking e i s) = s \<and>
         Rollback \<in> set (calls_of (cancel_booking e i s)) \<and>
         body_of (cancel_booking e i s) =
           fst (except_response e ''Failed to cancel booking'' err) \<and>
         status_of (cancel_booking e i s) =
           snd (except_response e ''Failed to cancel booking'' err) \<and>
         (rollback_error e = None \<longrightarrow> session_after (cancel_booking e i s) = s)"
proof -
  consider (del) "exec_error e s (DeleteBooking i) = Some err"
    | (upd) "exec_error e s (DeleteBooking i) = None"
        "exec_error e (apply_stmt e (DeleteBooking i) s) (room_vacate (b_RoomNumber b)) = Some err"
    | (com) "exec_error e s (DeleteBooking i) = None"
        "exec_error e (apply_stmt e (DeleteBooking i) s) (room_vacate (b_RoomNumber b)) = None"
        "commit_error e (apply_stmt e (room_vacate (b_RoomNumber b))
           (apply_stmt e (DeleteBooking i) s)) = Some err"
    using assms(4) unfolding first_error_two by (auto split: option.splits)
  then show ?thesis
  proof cases
    case del
    from cancel_booking_delete_raises [OF assms(1-3) del] show ?thesis
      by (simp add: body_of_def status_of_def db_after_def session_after_def calls_of_def
            except_rolled_back)
  next
    case upd
    from cancel_booking_update_raises [OF assms(1-3) upd] show ?thesis
      by (simp add: body_of_def status_of_def db_after_def session_after_def calls_of_def
            except_rolled_back)
  next
    case com
    from cancel_booking_commit_raises [OF assms(1-3) com] show ?thesis
      by (simp add: body_of_def status_of_def db_after_def session_after_def calls_of_def
            except_rolled_back)
  qed
qed

lemma cancel_booking_calls_distinct: "distinct (calls_of (cancel_booking e i s))"
proof (cases "connect_error e")
  case (Some x)
  then show ?thesis by (simp add: cancel_booking_no_connection calls_of_def)
next
  case None
  note c = this
  show ?thesis
  proof (cases "exec_error e s (SelectBookingRoom i)")
    case (Some err)
    with c show ?thesis by (simp add: cancel_booking_select_raises calls_of_def)
  next
    case None
    note q = this
    show ?thesis
    proof (cases "find (\<lambda>b. b_BookingID b = i) (Booking s)")
      case None
      with c q show ?thesis by (simp add: cancel_booking_not_found calls_of_def)
    next
      case (Some b)
      note b = this
      consider (del) err where "exec_error e s (DeleteBooking i) = Some err"
        | (upd) err where "exec_error e s (DeleteBooking i) = None"
            "exec_error e (apply_stmt e (DeleteBooking i) s) (room_vacate (b_RoomNumber b)) =
               Some err"
        | (com) err where "exec_error e s (DeleteBooking i) = None"
            "exec_error e (apply_stmt e (DeleteBooking i) s) (room_vacate (b_RoomNumber b)) = None"
            "commit_error e (apply_stmt e (room_vacate (b_RoomNumber b))
               (apply_stmt e (DeleteBooking i) s)) = Some err"
        | (through) "exec_error e s (DeleteBooking i) = None"
            "exec_error e (apply_stmt e (DeleteBooking i) s) (room_vacate (b_RoomNumber b)) = None"
            "commit_error e (apply_stmt e (room_vacate (b_RoomNumber b))
               (apply_stmt e (DeleteBooking i) s)) = None"
        by (cases "exec_error e s (DeleteBooking i)";
            cases "exec_error e (apply_stmt e (DeleteBooking i) s) (room_vacate (b_RoomNumber b))";
            cases "commit_error e (apply_stmt e (room_vacate (b_RoomNumber b))
                     (apply_stmt e (DeleteBooking i) s))") auto
      then show ?thesis
      proof cases
        case del
        from cancel_booking_delete_raises [OF c q b del] show ?thesis
          by (simp add: calls_of_def)
      next
        case upd
        from cancel_booking_update_raises [OF c q b upd] show ?thesis
          by (simp add: calls_of_def room_vacate_def)
      next
        case com
        from cancel_booking_commit_raises [OF c q b com] show ?thesis
          by (simp add: calls_of_def room_vacate_def)
      next
        case through
        from cancel_booking_commits [OF c q b through] show ?thesis
          by (simp add: calls_of_def room_vacate_def)
      qed
    qed
  qed
qed

subsection \<open>The room listing under a status update\<close>

lemma insort_key_map:
  "(\<And>y. f (g y) = f y) \<Longrightarrow> insort_key f (g x) (map g xs) = map g (insort_key f x xs)"
  by (induction xs) simp_all

lemma sort_key_map: "(\<And>y. f (g y) = f y) \<Longrightarrow> sort_key f (map g xs) = map g (sort_key f xs)"
  by (induction xs) (simp_all add: insort_key_map)

lemma joined_set_room_status:
  "joined (set_room_status e st p r) rt = set_entry_status e st p (joined r rt)"
  by (simp add: joined_def set_room_status_def set_entry_status_def)

lemma join_update:
  "concat (map (\<lambda>r. map (joined r) (room_types d r)) (map (set_room_status e st p) rs)) =
   map (set_entry_status e st p) (concat (map (\<lambda>r. map (joined r) (room_types d r)) rs))"
proof (induction rs)
  case Nil
  show ?case by simp
next
  case (Cons r rs)
  have tid: "room_types d (set_room_status e st p r) = room_types d r"
    by (simp add: set_room_status_def room_types_def)
  show ?case using Cons.IH by (simp add: tid joined_set_room_status)
qed

lemma room_types_update: "room_types (d\<lparr>Room := rs\<rparr>) = room_types d"
  by (simp add: room_types_def fun_eq_iff)

lemma select_rooms_update:
  "select_rooms (d\<lparr>Room := map (set_room_status e st p) (Room d)\<rparr>) =
   map (set_entry_status e st p) (select_rooms d)"
proof -
  have same_key: "\<And>y. e_RoomNumber (set_entry_status e st p y) = e_RoomNumber y"
    by (simp add: set_entry_status_def)
  show ?thesis
    by (simp add: select_rooms_def join_update room_types_update
          sort_key_map [where f = e_RoomNumber and g = "set_entry_status e st p", OF same_key]
          del: map_map)
qed

lemma select_rooms_cong:
  "Room d' = Room d \<Longrightarrow> RoomType d' = RoomType d \<Longrightarrow> select_rooms d' = select_rooms d"
  by (simp add: select_rooms_def room_types_def)

lemma select_rooms_status:
  assumes "RoomType d' = RoomType d" and "Room d' = map (set_room_status e st p) (Room d)"
  shows "select_rooms d' = map (set_entry_status e st p) (select_rooms d)"
proof -
  have "select_rooms d' = select_rooms (d\<lparr>Room := map (set_room_status e st p) (Room d)\<rparr>)"
    by (rule select_rooms_cong) (simp_all add: assms)
  then show ?thesis by (simp add: select_rooms_update)
qed

lemma entry_number_status: "e_RoomNumber (set_entry_status e st p x) = e_RoomNumber x"
  by (simp add: set_entry_status_def)

lemma listed_status_update: "listed_status e (map (set_entry_status e st p) es) p st"
  by (auto simp add: listed_status_def set_entry_status_def)

lemma join_one_each:
  assumes "\<forall>r \<in> set rs. length (room_types d r) = 1"
  shows "concat (map (\<lambda>r. map (joined r) (room_types d r)) rs) =
         map (\<lambda>r. joined r (hd (room_types d r))) rs"
  using assms
proof (induction rs)
  case Nil
  show ?case by simp
next
  case (Cons r rs)
  from Cons.prems have "length (room_types d r) = 1" by simp
  then obtain rt where "room_types d r = [rt]"
    by (cases "room_types d r") simp_all
  with Cons show ?case by simp
qed

subsection \<open>Runs in the small hotel\<close>

lemma demo_add_booking:
  "add_booking demo_env demo_request demo_db =
     ((BookingCreated ''Booking successful'' (Some 1), 201), booked_db, booked_db,
      [Connect, Execute (booking_insert demo_request), Execute (room_occupy demo_request), Commit,
       CursorClose, ConnClose])"
  by (simp add: add_booking_commits demo_env_def demo_db_def demo_request_def booking_insert_def
        room_occupy_def dict_get_def set_room_status_def booked_db_def booking1_def
        occupied_rooms_def)

lemma demo_cancel_booking:
  "cancel_booking demo_env 1 booked_db =
     ((MessageBody ''Booking 1 cancelled successfully. Room 101 is now Vacant.'', 200),
      demo_db, demo_db,
      [Connect, Execute (SelectBookingRoom 1), Execute (DeleteBooking 1),
       Execute (room_vacate (VInt 101)), Commit, CursorClose, ConnClose])"
proof -
  have b: "find (\<lambda>b. b_BookingID b = 1) (Booking booked_db) = Some booking1"
    by (simp add: booked_db_def booking1_def)
  have n: "str_int 1 = ''1''" "py_str (VInt 101) = ''101''"
    by (simp_all add: str_int_def digit_char_def)
  have r: "b_RoomNumber booking1 = VInt 101" by (simp add: booking1_def)
  have s: "apply_stmt demo_env (room_vacate (VInt 101))
             (apply_stmt demo_env (DeleteBooking 1) booked_db) = demo_db"
    by (simp add: booked_db_def demo_db_def booking1_def occupied_rooms_def room_vacate_def
          set_room_status_def)
  have "cancel_booking demo_env 1 booked_db =
     ((MessageBody (''Booking '' @ str_int 1 @ '' cancelled successfully. Room '' @
                    py_str (b_RoomNumber booking1) @ '' is now Vacant.''), 200),
      apply_stmt demo_env (room_vacate (b_RoomNumber booking1))
        (apply_stmt demo_env (DeleteBooking 1) booked_db),
      apply_stmt demo_env (room_vacate (b_RoomNumber booking1))
        (apply_stmt demo_env (DeleteBooking 1) booked_db),
      [Connect, Execute (SelectBookingRoom 1), Execute (DeleteBooking 1),
       Execute (room_vacate (b_RoomNumber booking1)), Commit, CursorClose, ConnClose])"
    by (rule cancel_booking_commits [OF _ _ b]) (simp_all add: demo_env_def)
  then show ?thesis unfolding r n s by simp
qed

lemma demo_select_rooms:
  "select_rooms demo_db =
     [\<lparr>e_RoomNumber = 101, e_RoomType = ''Standard'', e_Rate = 125, e_Status = ''Vacant''\<rparr>,
      \<lparr>e_RoomNumber = 102, e_RoomType = ''Deluxe'', e_Rate = 180, e_Status = ''Occupied''\<rparr>]"
  by (simp add: select_rooms_def demo_db_def room_types_def joined_def)

subsection \<open>Booking creation\<close>



text \<open>
  C2. When \<open>add_booking\<close> answers 201, the Booking table is the old one with one new row
  that holds the generated key, the request's fields as the engine stores them and the
  server time; every Room row whose RoomNumber equals the request's room number has status
  Occupied (for an integer room number, every row with that number) and the other rows are
  as before; the body carries the generated BookingID; and every later successful room
  listing shows Occupied for that room, with the same rooms listed as before.
\<close>

theorem add_booking_success:
  assumes "status_of (add_booking e data s) = 201"
  shows "Booking (db_after (add_booking e data s)) =
           Booking s @
           [\<lparr>b_BookingID = generated_id e s,
             b_CustomerID = stored_value e ColCustomerID (dict_get data ''customerId''),
             b_RoomNumber = stored_value e ColRoomNumber (dict_get data ''roomNumber''),
             b_CheckInDate = stored_value e ColCheckInDate (dict_get data ''checkInDate''),
             b_CheckOutDate = stored_value e ColCheckOutDate (dict_get data ''checkOutDate''),
             b_TotalCost = stored_value e ColTotalCost (dict_get data ''totalCost''),
             b_BookingDate = now e\<rparr>] \<and>
         Room (db_after (add_booking e data s)) =
           map (set_room_status e ''Occupied'' (dict_get data ''roomNumber'')) (Room s) \<and>
         (\<forall>r \<in> set (Room (db_after (add_booking e data s))).
            param_eq e (r_RoomNumber r) (dict_get data ''roomNumber'') \<longrightarrow>
            r_Status r = ''Occupied'') \<and>
         (\<forall>n. dict_get data ''roomNumber'' = VInt n \<longrightarrow>
            (\<forall>r \<in> set (Room (db_after (add_booking e data s))).
               r_RoomNumber r = n \<longrightarrow> r_Status r = ''Occupied'')) \<and>
         body_of (add_booking e data s) =
           BookingCreated ''Booking successful'' (Some (generated_id e s)) \<and>
         (\<forall>e'. status_of (get_room_availability e' (db_after (add_booking e data s))) = 200 \<longrightarrow>
            (\<exists>es. body_of (get_room_availability e' (db_after (add_booking e data s))) =
                    RoomList es \<and>
                  listed_status e es (dict_get data ''roomNumber'') ''Occupied'' \<and>
                  map e_RoomNumber es = map e_RoomNumber (select_rooms s)))"
proof -
  from add_booking_201 [OF assms]
  have out: "add_booking e data s =
     ((BookingCreated ''Booking successful'' (Some (generated_id e s)), 201),
      apply_stmt e (room_occupy data) (apply_stmt e (booking_insert data) s),
      apply_stmt e (room_occupy data) (apply_stmt e (booking_insert data) s),
      [Connect, Execute (booking_insert data), Execute (room_occupy data), Commit,
       CursorClose, ConnClose])"
    by (simp add: add_booking_commits)
  define s' where "s' = apply_stmt e (room_occupy data) (apply_stmt e (booking_insert data) s)"
  have after: "db_after (add_booking e data s) = s'"
    by (simp add: out db_after_def s'_def)
  have bookings: "Booking s' =
           Booking s @
           [\<lparr>b_BookingID = generated_id e s,
             b_CustomerID = stored_value e ColCustomerID (dict_get data ''customerId''),
             b_RoomNumber = stored_value e ColRoomNumber (dict_get data ''roomNumber''),
             b_CheckInDate = stored_value e ColCheckInDate (dict_get data ''checkInDate''),
             b_CheckOutDate = stored_value e ColCheckOutDate (dict_get data ''checkOutDate''),
             b_TotalCost = stored_value e ColTotalCost (dict_get data ''totalCost''),
             b_BookingDate = now e\<rparr>]"
    by (simp add: s'_def booking_insert_def room_occupy_def)
  have rooms: "Room s' =
      map (set_room_status e ''Occupied'' (dict_get data ''roomNumber'')) (Room s)"
    by (simp add: s'_def booking_insert_def room_occupy_def)
  have types: "RoomType s' = RoomType s"
    by (simp add: s'_def booking_insert_def room_occupy_def)
  have occupied: "\<forall>r \<in> set (Room s').
      param_eq e (r_RoomNumber r) (dict_get data ''roomNumber'') \<longrightarrow> r_Status r = ''Occupied''"
    unfolding rooms by (auto simp add: set_room_status_def)
  have numbered: "\<forall>n. dict_get data ''roomNumber'' = VInt n \<longrightarrow>
      (\<forall>r \<in> set (Room s'). r_RoomNumber r = n \<longrightarrow> r_Status r = ''Occupied'')"
    using occupied by auto
  have reply: "body_of (add_booking e data s) =
           BookingCreated ''Booking successful'' (Some (generated_id e s))"
    by (simp add: out body_of_def)
  have sel: "select_rooms s' =
      map (set_entry_status e ''Occupied'' (dict_get data ''roomNumber'')) (select_rooms s)"
    by (rule select_rooms_status [OF types rooms])
  have listing: "\<forall>e'. status_of (get_room_availability e' s') = 200 \<longrightarrow>
            (\<exists>es. body_of (get_room_availability e' s') = RoomList es \<and>
                  listed_status e es (dict_get data ''roomNumber'') ''Occupied'' \<and>
                  map e_RoomNumber es = map e_RoomNumber (select_rooms s))"
    by (simp add: get_room_availability_200 sel listed_status_update entry_number_status)
  from bookings rooms occupied numbered reply listing show ?thesis
    unfolding after by blast
qed

theorem add_booking_success_witness:
  "status_of (add_booking demo_env demo_request demo_db) = 201 \<and>
   Booking (db_after (add_booking demo_env demo_request demo_db)) = [booking1] \<and>
   Room (db_after (add_booking demo_env demo_request demo_db)) = occupied_rooms \<and>
   body_of (add_booking demo_env demo_request demo_db) =
     BookingCreated ''Booking successful'' (Some 1) \<and>
   listed_status demo_env (select_rooms (db_after (add_booking demo_env demo_request demo_db)))
     (VInt 101) ''Occupied'' \<and>
   status_of (add_booking demo_env (demo_request(''roomNumber'' \<mapsto> VStr ''101'')) demo_db) = 201 \<and>
   Room (db_after (add_booking demo_env (demo_request(''roomNumber'' \<mapsto> VStr ''101'')) demo_db)) =
     occupied_rooms"
proof -
  have ok: "status_of (add_booking demo_env demo_request demo_db) = 201"
    by (simp add: demo_add_booking status_of_def)
  have l: "status_of (get_room_availability demo_env
             (db_after (add_booking demo_env demo_request demo_db))) = 200"
    by (simp add: get_room_availability_returns demo_env_def status_of_def)
  have g: "generated_id demo_env demo_db = 1" "now demo_env = 1717200000"
    "stored_value demo_env col p = p" for col p
    by (simp_all add: demo_env_def demo_db_def)
  have r: "dict_get demo_request ''roomNumber'' = VInt 101"
     "dict_get demo_request ''customerId'' = VInt 7"
     "dict_get demo_request ''checkInDate'' = VStr ''2024-06-01''"
     "dict_get demo_request ''checkOutDate'' = VStr ''2024-06-03''"
     "dict_get demo_request ''totalCost'' = VNum ''250.0''"
    by (simp_all add: demo_request_def dict_get_def)
  have rooms: "map (set_room_status demo_env ''Occupied'' (VInt 101)) (Room demo_db) =
      occupied_rooms"
    by (simp add: demo_db_def occupied_rooms_def set_room_status_def)
  have empty: "Booking demo_db = []" by (simp add: demo_db_def)
  note t = add_booking_success [OF ok, unfolded g r rooms empty]
  from t have bookings: "Booking (db_after (add_booking demo_env demo_request demo_db)) = [booking1]"
    by (simp add: booking1_def)
  from t have occ: "Room (db_after (add_booking demo_env demo_request demo_db)) = occupied_rooms"
    by blast
  from t have reply: "body_of (add_booking demo_env demo_request demo_db) =
     BookingCreated ''Booking successful'' (Some 1)"
    by blast
  from t l obtain es where
    es: "body_of (get_room_availability demo_env
           (db_after (add_booking demo_env demo_request demo_db))) = RoomList es"
      "listed_status demo_env es (VInt 101) ''Occupied''"
    by blast
  from es(1) have "es = select_rooms (db_after (add_booking demo_env demo_request demo_db))"
    by (simp add: get_room_availability_200 [OF l])
  with es(2) have listed: "listed_status demo_env
      (select_rooms (db_after (add_booking demo_env demo_request demo_db))) (VInt 101) ''Occupied''"
    by simp
  let ?text = "demo_request(''roomNumber'' \<mapsto> VStr ''101'')"
  have ok2: "status_of (add_booking demo_env ?text demo_db) = 201"
    by (simp add: add_booking_goes_through demo_env_def status_of_def)
  have r2: "dict_get ?text ''roomNumber'' = VStr ''101''"
    by (simp add: dict_get_def)
  have n: "str_int 101 = ''101''" "str_int 102 = ''102''"
    by (simp_all add: str_int_def digit_char_def)
  have rooms2: "map (set_room_status demo_env ''Occupied'' (VStr ''101'')) (Room demo_db) =
      occupied_rooms"
    by (simp add: demo_db_def occupied_rooms_def set_room_status_def demo_env_def n)
  from add_booking_success [OF ok2, unfolded r2 rooms2]
  have occ2: "Room (db_after (add_booking demo_env ?text demo_db)) = occupied_rooms"
    by blast
  from ok bookings occ reply listed ok2 occ2 show ?thesis by simp
qed

text \<open>
  C6. \<open>add_booking\<close> does not look at the room's status: when the connection opens and
  no statement raises, a request for a room whose Room row is already Occupied is answered
  201 with the generated id, the Booking row is appended, and the Room row stays as it was.
\<close>

theorem add_booking_into_occupied_room:
  assumes "connect_error e = None"
    and "first_error e [booking_insert data, room_occupy data] s = None"
    and "r \<in> set (Room s)"
    and "param_eq e (r_RoomNumber r) (dict_get data ''roomNumber'')"
    and "r_Status r = ''Occupied''"
  shows "status_of (add_booking e data s) = 201 \<and>
         body_of (add_booking e data s) =
           BookingCreated ''Booking successful'' (Some (generated_id e s)) \<and>
         Booking (db_after (add_booking e data s)) =
           Booking s @
           [\<lparr>b_BookingID = generated_id e s,
             b_CustomerID = stored_value e ColCustomerID (dict_get data ''customerId''),
             b_RoomNumber = stored_value e ColRoomNumber (dict_get data ''roomNumber''),
             b_CheckInDate = stored_value e ColCheckInDate (dict_get data ''checkInDate''),
             b_CheckOutDate = stored_value e ColCheckOutDate (dict_get data ''checkOutDate''),
             b_TotalCost = stored_value e ColTotalCost (dict_get data ''totalCost''),
             b_BookingDate = now e\<rparr>] \<and>
         r \<in> set (Room (db_after (add_booking e data s)))"
proof -
  note out = add_booking_goes_through [OF assms(1,2)]
  have same: "set_room_status e ''Occupied'' (dict_get data ''roomNumber'') r = r"
    using assms(5) by (simp add: set_room_status_def)
  have "Room (db_after (add_booking e data s)) =
          map (set_room_status e ''Occupied'' (dict_get data ''roomNumber'')) (Room s)"
    by (simp add: out db_after_def booking_insert_def room_occupy_def)
  with assms(3) same have kept: "r \<in> set (Room (db_after (add_booking e data s)))"
    by force
  have rest: "status_of (add_booking e data s) = 201 \<and>
         body_of (add_booking e data s) =
           BookingCreated ''Booking successful'' (Some (generated_id e s)) \<and>
         Booking (db_after (add_booking e data s)) =
           Booking s @
           [\<lparr>b_BookingID = generated_id e s,
             b_CustomerID = stored_value e ColCustomerID (dict_get data ''customerId''),
             b_RoomNumber = stored_value e ColRoomNumber (dict_get data ''roomNumber''),
             b_CheckInDate = stored_value e ColCheckInDate (dict_get data ''checkInDate''),
             b_CheckOutDate = stored_value e ColCheckOutDate (dict_get data ''checkOutDate''),
             b_TotalCost = stored_value e ColTotalCost (dict_get data ''totalCost''),
             b_BookingDate = now e\<rparr>]"
    by (simp add: out status_of_def body_of_def db_after_def booking_insert_def room_occupy_def)
  from rest kept show ?thesis by blast
qed

theorem add_booking_into_occupied_room_witness:
  "connect_error demo_env = None \<and>
   first_error demo_env [booking_insert demo_request, room_occupy demo_request] booked_db = None \<and>
   \<lparr>r_RoomNumber = 101, r_RoomTypeID = 1, r_Status = ''Occupied''\<rparr> \<in> set (Room booked_db) \<and>
   param_eq demo_env 101 (dict_get demo_request ''roomNumber'') \<and>
   booking1 \<in> set (Booking booked_db) \<and> b_RoomNumber booking1 = VInt 101 \<and>
   status_of (add_booking demo_env demo_request booked_db) = 201 \<and>
   body_of (add_booking demo_env demo_request booked_db) =
     BookingCreated ''Booking successful'' (Some 2) \<and>
   length (Booking (db_after (add_booking demo_env demo_request booked_db))) = 2 \<and>
   \<lparr>r_RoomNumber = 101, r_RoomTypeID = 1, r_Status = ''Occupied''\<rparr>
     \<in> set (Room (db_after (add_booking demo_env demo_request booked_db)))"
proof -
  have c: "connect_error demo_env = None" by (simp add: demo_env_def)
  have f: "first_error demo_env [booking_insert demo_request, room_occupy demo_request] booked_db
             = None"
    by (simp add: demo_env_def)
  have r: "\<lparr>r_RoomNumber = 101, r_RoomTypeID = 1, r_Status = ''Occupied''\<rparr> \<in> set (Room booked_db)"
    by (simp add: booked_db_def occupied_rooms_def)
  have p: "param_eq demo_env (r_RoomNumber \<lparr>r_RoomNumber = 101, r_RoomTypeID = 1, r_Status = ''Occupied''\<rparr>)
             (dict_get demo_request ''roomNumber'')"
    by (simp add: demo_request_def dict_get_def)
  have st: "r_Status \<lparr>r_RoomNumber = 101, r_RoomTypeID = 1, r_Status = ''Occupied''\<rparr> = ''Occupied''"
    by simp
  have b: "booking1 \<in> set (Booking booked_db)" "b_RoomNumber booking1 = VInt 101"
    "length (Booking booked_db) = 1"
    by (simp_all add: booked_db_def booking1_def)
  have g: "generated_id demo_env booked_db = 2"
    by (simp add: demo_env_def booked_db_def)
  note t = add_booking_into_occupied_room [OF c f r p st]
  from t have s201: "status_of (add_booking demo_env demo_request booked_db) = 201"
    by blast
  from t have reply: "body_of (add_booking demo_env demo_request booked_db) =
     BookingCreated ''Booking successful'' (Some 2)"
    by (simp add: g)
  from t have "Booking (db_after (add_booking demo_env demo_request booked_db)) =
      Booking booked_db @
           [\<lparr>b_BookingID = generated_id demo_env booked_db,
             b_CustomerID = stored_value demo_env ColCustomerID (dict_get demo_request ''customerId''),
             b_RoomNumber = stored_value demo_env ColRoomNumber (dict_get demo_request ''roomNumber''),
             b_CheckInDate =
               stored_value demo_env ColCheckInDate (dict_get demo_request ''checkInDate''),
             b_CheckOutDate =
               stored_value demo_env ColCheckOutDate (dict_get demo_request ''checkOutDate''),
             b_TotalCost = stored_value demo_env ColTotalCost (dict_get demo_request ''totalCost''),
             b_BookingDate = now demo_env\<rparr>]"
    by blast
  then have two: "length (Booking (db_after (add_booking demo_env demo_request booked_db))) = 2"
    by (simp add: b(3))
  from t have kept: "\<lparr>r_RoomNumber = 101, r_RoomTypeID = 1, r_Status = ''Occupied''\<rparr>
     \<in> set (Room (db_after (add_booking demo_env demo_request booked_db)))"
    by blast
  from p have p': "param_eq demo_env 101 (dict_get demo_request ''roomNumber'')" by simp
  from c f r p' b(1,2) s201 reply two kept show ?thesis by blast
qed

text \<open>
  C10. The guestName field has no effect: two request bodies that agree on every key other
  than guestName give the same response, the same stored database and the same calls.
\<close>

theorem guest_name_is_ignored:
  assumes "\<forall>k. k \<noteq> ''guestName'' \<longrightarrow> data k = data' k"
  shows "add_booking e data s = add_booking e data' s"
proof -
  have "dict_get data k = dict_get data' k" if "k \<noteq> ''guestName''" for k
    using assms that by (simp add: dict_get_def)
  then have fields: "dict_get data ''roomNumber'' = dict_get data' ''roomNumber''"
    "dict_get data ''checkInDate'' = dict_get data' ''checkInDate''"
    "dict_get data ''checkOutDate'' = dict_get data' ''checkOutDate''"
    "dict_get data ''totalCost'' = dict_get data' ''totalCost''"
    "dict_get data ''customerId'' = dict_get data' ''customerId''"
    by simp_all
  have body: "add_booking_try e data room_number check_in check_out total_cost cn =
              add_booking_try e data' room_number check_in check_out total_cost cn"
    for room_number check_in check_out total_cost cn
    by (simp add: add_booking_try_def fields(5))
  show ?thesis
    by (cases "get_db_connection e s") (simp_all add: add_booking_def Let_def fields body)
qed

theorem guest_name_is_ignored_witness:
  "demo_request(''guestName'' := None) =
     (demo_request(''guestName'' \<mapsto> VStr ''B. Kim''))(''guestName'' := None) \<and>
   demo_request ''guestName'' \<noteq> (demo_request(''guestName'' \<mapsto> VStr ''B. Kim'')) ''guestName'' \<and>
   add_booking demo_env demo_request demo_db =
     add_booking demo_env (demo_request(''guestName'' \<mapsto> VStr ''B. Kim'')) demo_db"
proof -
  have h: "\<forall>k. k \<noteq> ''guestName'' \<longrightarrow>
        demo_request k = (demo_request(''guestName'' \<mapsto> VStr ''B. Kim'')) k"
    by simp
  have d: "demo_request ''guestName'' \<noteq>
        (demo_request(''guestName'' \<mapsto> VStr ''B. Kim'')) ''guestName''"
    by (simp add: demo_request_def)
  have h': "demo_request(''guestName'' := None) =
     (demo_request(''guestName'' \<mapsto> VStr ''B. Kim''))(''guestName'' := None)"
    by simp
  from guest_name_is_ignored [OF h, of demo_env demo_db] h' d show ?thesis by blast
qed

subsection \<open>Cancellation\<close>

text \<open>
  C3. When \<open>cancel_booking\<close> answers 200, the lookup found a Booking row \<open>b\<close> with that
  BookingID; afterwards no Booking row has that BookingID and the other rows are kept,
  every Room row with \<open>b\<close>'s room number has status Vacant and the other rooms are as
  before, the message is "Booking <id> cancelled successfully. Room <number> is now
  Vacant." with the cancelled id and \<open>b\<close>'s room number, and every later successful room
  listing shows Vacant for that room, with the same rooms listed as before.
\<close>

theorem cancel_booking_success:
  assumes "status_of (cancel_booking e i s) = 200"
  shows "\<exists>b. find (\<lambda>b. b_BookingID b = i) (Booking s) = Some b \<and>
           Booking (db_after (cancel_booking e i s)) =
             filter (\<lambda>b. b_BookingID b \<noteq> i) (Booking s) \<and>
           (\<forall>b' \<in> set (Booking (db_after (cancel_booking e i s))). b_BookingID b' \<noteq> i) \<and>
           Room (db_after (cancel_booking e i s)) =
             map (set_room_status e ''Vacant'' (b_RoomNumber b)) (Room s) \<and>
           (\<forall>r \<in> set (Room (db_after (cancel_booking e i s))).
              param_eq e (r_RoomNumber r) (b_RoomNumber b) \<longrightarrow> r_Status r = ''Vacant'') \<and>
           body_of (cancel_booking e i s) =
             MessageBody (''Booking '' @ str_int i @ '' cancelled successfully. Room '' @
                          py_str (b_RoomNumber b) @ '' is now Vacant.'') \<and>
           (\<forall>e'. status_of (get_room_availability e' (db_after (cancel_booking e i s))) = 200 \<longrightarrow>
              (\<exists>es. body_of (get_room_availability e' (db_after (cancel_booking e i s))) =
                      RoomList es \<and>
                    listed_status e es (b_RoomNumber b) ''Vacant'' \<and>
                    map e_RoomNumber es = map e_RoomNumber (select_rooms s)))"
proof -
  from cancel_booking_200 [OF assms] obtain b where
    b: "find (\<lambda>b. b_BookingID b = i) (Booking s) = Some b" and
    out: "cancel_booking e i s =
     ((MessageBody (''Booking '' @ str_int i @ '' cancelled successfully. Room '' @
                    py_str (b_RoomNumber b) @ '' is now Vacant.''), 200),
      apply_stmt e (room_vacate (b_RoomNumber b)) (apply_stmt e (DeleteBooking i) s),
      apply_stmt e (room_vacate (b_RoomNumber b)) (apply_stmt e (DeleteBooking i) s),
      [Connect, Execute (SelectBookingRoom i), Execute (DeleteBooking i),
       Execute (room_vacate (b_RoomNumber b)), Commit, CursorClose, ConnClose])"
    by blast
  define s' where
    "s' = apply_stmt e (room_vacate (b_RoomNumber b)) (apply_stmt e (DeleteBooking i) s)"
  have after: "db_after (cancel_booking e i s) = s'"
    by (simp add: out db_after_def s'_def)
  have bookings: "Booking s' = filter (\<lambda>b. b_BookingID b \<noteq> i) (Booking s)"
    by (simp add: s'_def room_vacate_def)
  have gone: "\<forall>b' \<in> set (Booking s'). b_BookingID b' \<noteq> i"
    unfolding bookings by simp
  have rooms: "Room s' = map (set_room_status e ''Vacant'' (b_RoomNumber b)) (Room s)"
    by (simp add: s'_def room_vacate_def)
  have types: "RoomType s' = RoomType s"
    by (simp add: s'_def room_vacate_def)
  have vacant: "\<forall>r \<in> set (Room s'). param_eq e (r_RoomNumber r) (b_RoomNumber b) \<longrightarrow>
                  r_Status r = ''Vacant''"
    unfolding rooms by (auto simp add: set_room_status_def)
  have msg: "body_of (cancel_booking e i s) =
             MessageBody (''Booking '' @ str_int i @ '' cancelled successfully. Room '' @
                          py_str (b_RoomNumber b) @ '' is now Vacant.'')"
    by (simp add: out body_of_def)
  have sel: "select_rooms s' =
      map (set_entry_status e ''Vacant'' (b_RoomNumber b)) (select_rooms s)"
    by (rule select_rooms_status [OF types rooms])
  have listing: "\<forall>e'. status_of (get_room_availability e' s') = 200 \<longrightarrow>
              (\<exists>es. body_of (get_room_availability e' s') = RoomList es \<and>
                    listed_status e es (b_RoomNumber b) ''Vacant'' \<and>
                    map e_RoomNumber es = map e_RoomNumber (select_rooms s))"
    by (simp add: get_room_availability_200 sel listed_status_update entry_number_status)
  from b bookings gone rooms vacant msg listing show ?thesis
    unfolding after by blast
qed

theorem cancel_booking_success_witness:
  "status_of (cancel_booking demo_env 1 booked_db) = 200 \<and>
   Booking (db_after (cancel_booking demo_env 1 booked_db)) = [] \<and>
   Room (db_after (cancel_booking demo_env 1 booked_db)) = Room demo_db \<and>
   body_of (cancel_booking demo_env 1 booked_db) =
     MessageBody ''Booking 1 cancelled successfully. Room 101 is now Vacant.'' \<and>
   listed_status demo_env (select_rooms (db_after (cancel_booking demo_env 1 booked_db)))
     (VInt 101) ''Vacant''"
proof -
  have ok: "status_of (cancel_booking demo_env 1 booked_db) = 200"
    by (simp add: demo_cancel_booking status_of_def)
  have l: "status_of (get_room_availability demo_env
             (db_after (cancel_booking demo_env 1 booked_db))) = 200"
    by (simp add: get_room_availability_returns demo_env_def status_of_def)
  have first: "find (\<lambda>b. b_BookingID b = 1) (Booking booked_db) = Some booking1"
    by (simp add: booked_db_def booking1_def)
  have r: "b_RoomNumber booking1 = VInt 101" by (simp add: booking1_def)
  have d: "db_after (cancel_booking demo_env 1 booked_db) = demo_db"
    by (simp add: demo_cancel_booking db_after_def)
  have m: "body_of (cancel_booking demo_env 1 booked_db) =
     MessageBody ''Booking 1 cancelled successfully. Room 101 is now Vacant.''"
    by (simp add: demo_cancel_booking body_of_def)
  from cancel_booking_success [OF ok] obtain b where
    b: "find (\<lambda>b. b_BookingID b = 1) (Booking booked_db) = Some b" and
    later: "\<forall>e'. status_of (get_room_availability e'
                (db_after (cancel_booking demo_env 1 booked_db))) = 200 \<longrightarrow>
              (\<exists>es. body_of (get_room_availability e'
                        (db_after (cancel_booking demo_env 1 booked_db))) = RoomList es \<and>
                    listed_status demo_env es (b_RoomNumber b) ''Vacant'' \<and>
                    map e_RoomNumber es = map e_RoomNumber (select_rooms booked_db))"
    by blast
  from b first have "b = booking1" by simp
  with later l r obtain es where
    es: "body_of (get_room_availability demo_env
           (db_after (cancel_booking demo_env 1 booked_db))) = RoomList es"
      "listed_status demo_env es (VInt 101) ''Vacant''"
    by metis
  from es(1) have "es = select_rooms (db_after (cancel_booking demo_env 1 booked_db))"
    by (simp add: get_room_availability_200 [OF l])
  with es(2) have "listed_status demo_env (select_rooms (db_after (cancel_booking demo_env 1 booked_db)))
     (VInt 101) ''Vacant''"
    by simp
  with ok d m show ?thesis by (simp add: demo_db_def)
qed

text \<open>
  C4. When no Booking row has the given BookingID, \<open>cancel_booking\<close> leaves the stored
  database as it was and issues no insert, update, delete or commit, whatever the
  environment does; and when the connection opens and the lookup runs, the answer is the
  404 "Booking not found" after the lookup alone.
\<close>

theorem cancel_booking_not_found_no_mutation:
  assumes "\<forall>b \<in> set (Booking s). b_BookingID b \<noteq> i"
  shows "db_after (cancel_booking e i s) = s \<and>
         (\<forall>ev \<in> set (calls_of (cancel_booking e i s)). \<not> mutation ev) \<and>
         (connect_error e = None \<and> exec_error e s (SelectBookingRoom i) = None \<longrightarrow>
            body_of (cancel_booking e i s) = ErrorBody ''Booking not found'' \<and>
            status_of (cancel_booking e i s) = 404 \<and>
            calls_of (cancel_booking e i s) =
              [Connect, Execute (SelectBookingRoom i), CursorClose, ConnClose])"
proof -
  have none: "find (\<lambda>b. b_BookingID b = i) (Booking s) = None"
    using assms by (simp add: find_None_iff)
  consider (offline) x where "connect_error e = Some x"
    | (raised) err where "connect_error e = None" "exec_error e s (SelectBookingRoom i) = Some err"
    | (looked_up) "connect_error e = None" "exec_error e s (SelectBookingRoom i) = None"
    by (cases "connect_error e"; cases "exec_error e s (SelectBookingRoom i)") auto
  then have frame: "db_after (cancel_booking e i s) = s \<and>
       (\<forall>ev \<in> set (calls_of (cancel_booking e i s)). \<not> mutation ev)"
  proof cases
    case offline
    then show ?thesis by (simp add: cancel_booking_no_connection db_after_def calls_of_def)
  next
    case raised
    then show ?thesis by (simp add: cancel_booking_select_raises db_after_def calls_of_def)
  next
    case looked_up
    then show ?thesis by (simp add: cancel_booking_not_found none db_after_def calls_of_def)
  qed
  have answer: "connect_error e = None \<and> exec_error e s (SelectBookingRoom i) = None \<longrightarrow>
         body_of (cancel_booking e i s) = ErrorBody ''Booking not found'' \<and>
         status_of (cancel_booking e i s) = 404 \<and>
         calls_of (cancel_booking e i s) =
           [Connect, Execute (SelectBookingRoom i), CursorClose, ConnClose]"
    by (simp add: cancel_booking_not_found none body_of_def status_of_def calls_of_def)
  from frame answer show ?thesis by blast
qed

theorem cancel_booking_not_found_no_mutation_witness:
  "list_all (\<lambda>b. b_BookingID b \<noteq> 5) (Booking booked_db) \<and>
   connect_error demo_env = None \<and> exec_error demo_env booked_db (SelectBookingRoom 5) = None \<and>
   db_after (cancel_booking demo_env 5 booked_db) = booked_db \<and>
   body_of (cancel_booking demo_env 5 booked_db) = ErrorBody ''Booking not found'' \<and>
   status_of (cancel_booking demo_env 5 booked_db) = 404 \<and>
   calls_of (cancel_booking demo_env 5 booked_db) =
     [Connect, Execute (SelectBookingRoom 5), CursorClose, ConnClose]"
proof -
  have h: "\<forall>b \<in> set (Booking booked_db). b_BookingID b \<noteq> 5"
    by (simp add: booked_db_def booking1_def)
  have c: "connect_error demo_env = None \<and>
           exec_error demo_env booked_db (SelectBookingRoom 5) = None"
    by (simp add: demo_env_def)
  from h have h': "list_all (\<lambda>b. b_BookingID b \<noteq> 5) (Booking booked_db)"
    by (simp add: list_all_iff)
  from cancel_booking_not_found_no_mutation [OF h, of demo_env] h' c
  show ?thesis by blast
qed

text \<open>
  C7. When \<open>cancel_booking\<close> answers 200, the Room table is the old one with status
  Vacant written to every row that has the cancelled booking's room number, whatever the
  Booking table holds: every other Booking row for that same room is still stored, and the
  room is Vacant all the same.
\<close>

theorem cancel_booking_vacates_shared_room:
  assumes "status_of (cancel_booking e i s) = 200"
  shows "\<exists>b. find (\<lambda>b. b_BookingID b = i) (Booking s) = Some b \<and>
           Room (db_after (cancel_booking e i s)) =
             map (set_room_status e ''Vacant'' (b_RoomNumber b)) (Room s) \<and>
           (\<forall>r \<in> set (Room (db_after (cancel_booking e i s))).
              param_eq e (r_RoomNumber r) (b_RoomNumber b) \<longrightarrow> r_Status r = ''Vacant'') \<and>
           (\<forall>b' \<in> set (Booking s).
              b_BookingID b' \<noteq> i \<and> b_RoomNumber b' = b_RoomNumber b \<longrightarrow>
              b' \<in> set (Booking (db_after (cancel_booking e i s))))"
proof -
  from cancel_booking_200 [OF assms] obtain b where
    b: "find (\<lambda>b. b_BookingID b = i) (Booking s) = Some b" and
    out: "cancel_booking e i s =
     ((MessageBody (''Booking '' @ str_int i @ '' cancelled successfully. Room '' @
                    py_str (b_RoomNumber b) @ '' is now Vacant.''), 200),
      apply_stmt e (room_vacate (b_RoomNumber b)) (apply_stmt e (DeleteBooking i) s),
      apply_stmt e (room_vacate (b_RoomNumber b)) (apply_stmt e (DeleteBooking i) s),
      [Connect, Execute (SelectBookingRoom i), Execute (DeleteBooking i),
       Execute (room_vacate (b_RoomNumber b)), Commit, CursorClose, ConnClose])"
    by blast
  have rooms: "Room (db_after (cancel_booking e i s)) =
             map (set_room_status e ''Vacant'' (b_RoomNumber b)) (Room s)"
    by (simp add: out db_after_def room_vacate_def)
  have vacant: "\<forall>r \<in> set (Room (db_after (cancel_booking e i s))).
              param_eq e (r_RoomNumber r) (b_RoomNumber b) \<longrightarrow> r_Status r = ''Vacant''"
    by (auto simp add: rooms set_room_status_def)
  have others: "\<forall>b' \<in> set (Booking s).
              b_BookingID b' \<noteq> i \<and> b_RoomNumber b' = b_RoomNumber b \<longrightarrow>
              b' \<in> set (Booking (db_after (cancel_booking e i s)))"
    by (simp add: out db_after_def room_vacate_def)
  from b rooms vacant others show ?thesis by blast
qed

theorem cancel_booking_vacates_shared_room_witness:
  "status_of (cancel_booking demo_env 1 double_booked_db) = 200 \<and>
   find (\<lambda>b. b_BookingID b = 1) (Booking double_booked_db) = Some booking1 \<and>
   booking2 \<in> set (Booking double_booked_db) \<and>
   b_BookingID booking2 \<noteq> 1 \<and> b_RoomNumber booking2 = b_RoomNumber booking1 \<and>
   booking2 \<in> set (Booking (db_after (cancel_booking demo_env 1 double_booked_db))) \<and>
   Room (db_after (cancel_booking demo_env 1 double_booked_db)) = Room demo_db"
proof -
  have first: "find (\<lambda>b. b_BookingID b = 1) (Booking double_booked_db) = Some booking1"
    by (simp add: double_booked_db_def booking1_def)
  have "cancel_booking demo_env 1 double_booked_db =
     ((MessageBody (''Booking '' @ str_int 1 @ '' cancelled successfully. Room '' @
                    py_str (b_RoomNumber booking1) @ '' is now Vacant.''), 200),
      apply_stmt demo_env (room_vacate (b_RoomNumber booking1))
        (apply_stmt demo_env (DeleteBooking 1) double_booked_db),
      apply_stmt demo_env (room_vacate (b_RoomNumber booking1))
        (apply_stmt demo_env (DeleteBooking 1) double_booked_db),
      [Connect, Execute (SelectBookingRoom 1), Execute (DeleteBooking 1),
       Execute (room_vacate (b_RoomNumber booking1)), Commit, CursorClose, ConnClose])"
    by (rule cancel_booking_commits [OF _ _ first]) (simp_all add: demo_env_def)
  then have ok: "status_of (cancel_booking demo_env 1 double_booked_db) = 200"
    by (simp add: status_of_def)
  have two: "booking2 \<in> set (Booking double_booked_db)"
    by (simp add: double_booked_db_def)
  have other: "b_BookingID booking2 \<noteq> 1" "b_RoomNumber booking2 = b_RoomNumber booking1"
    by (simp_all add: booking1_def booking2_def)
  have r: "b_RoomNumber booking1 = VInt 101" by (simp add: booking1_def)
  have rooms: "map (set_room_status demo_env ''Vacant'' (VInt 101)) (Room double_booked_db) = Room demo_db"
    by (simp add: double_booked_db_def demo_db_def occupied_rooms_def set_room_status_def)
  from cancel_booking_vacates_shared_room [OF ok] obtain b where
    b: "find (\<lambda>b. b_BookingID b = 1) (Booking double_booked_db) = Some b" and
    vacated: "Room (db_after (cancel_booking demo_env 1 double_booked_db)) =
             map (set_room_status demo_env ''Vacant'' (b_RoomNumber b)) (Room double_booked_db)" and
    kept: "\<forall>b' \<in> set (Booking double_booked_db).
              b_BookingID b' \<noteq> 1 \<and> b_RoomNumber b' = b_RoomNumber b \<longrightarrow>
              b' \<in> set (Booking (db_after (cancel_booking demo_env 1 double_booked_db)))"
    by blast
  from b first have eq: "b = booking1" by simp
  from kept two other have still:
    "booking2 \<in> set (Booking (db_after (cancel_booking demo_env 1 double_booked_db)))"
    unfolding eq by blast
  from vacated have "Room (db_after (cancel_booking demo_env 1 double_booked_db)) = Room demo_db"
    unfolding eq r rooms .
  with ok first two other still show ?thesis by blast
qed

subsection \<open>Room listing\<close>

text \<open>
  C5. When \<open>get_room_availability\<close> answers 200, the body is a list of entries in
  ascending order of RoomNumber that holds exactly the pairs of the join, each once; when
  every Room row has exactly one RoomType row with its RoomTypeID, that is one entry per
  Room row, built from the row and its type. With no Room rows, a connection that opens
  and a query that runs give the empty list with status 200.
\<close>

theorem room_listing_ordered_one_per_room:
  "(status_of (get_room_availability e s) = 200 \<longrightarrow>
      (\<exists>es. body_of (get_room_availability e s) = RoomList es \<and>
            sorted (map e_RoomNumber es) \<and>
            mset es = mset (concat (map (\<lambda>r. map (joined r) (room_types s r)) (Room s))) \<and>
            ((\<forall>r \<in> set (Room s). length (room_types s r) = 1) \<longrightarrow>
               mset es = mset (map (\<lambda>r. joined r (hd (room_types s r))) (Room s)) \<and>
               length es = length (Room s)))) \<and>
   (connect_error e = None \<and> exec_error e s SelectRooms = None \<and> Room s = [] \<longrightarrow>
      body_of (get_room_availability e s) = RoomList [] \<and>
      status_of (get_room_availability e s) = 200)"
proof -
  have one: "(\<forall>r \<in> set (Room s). length (room_types s r) = 1) \<longrightarrow>
         mset (select_rooms s) = mset (map (\<lambda>r. joined r (hd (room_types s r))) (Room s)) \<and>
         length (select_rooms s) = length (Room s)"
    by (simp add: select_rooms_def join_one_each)
  have "sorted (map e_RoomNumber (select_rooms s))"
    by (simp add: select_rooms_def)
  moreover have "mset (select_rooms s) =
      mset (concat (map (\<lambda>r. map (joined r) (room_types s r)) (Room s)))"
    by (simp add: select_rooms_def)
  ultimately have listing: "status_of (get_room_availability e s) = 200 \<longrightarrow>
      (\<exists>es. body_of (get_room_availability e s) = RoomList es \<and>
            sorted (map e_RoomNumber es) \<and>
            mset es = mset (concat (map (\<lambda>r. map (joined r) (room_types s r)) (Room s))) \<and>
            ((\<forall>r \<in> set (Room s). length (room_types s r) = 1) \<longrightarrow>
               mset es = mset (map (\<lambda>r. joined r (hd (room_types s r))) (Room s)) \<and>
               length es = length (Room s)))"
    using one get_room_availability_200 [of e s] by blast
  have empty: "connect_error e = None \<and> exec_error e s SelectRooms = None \<and> Room s = [] \<longrightarrow>
      body_of (get_room_availability e s) = RoomList [] \<and>
      status_of (get_room_availability e s) = 200"
    by (simp add: get_room_availability_returns body_of_def status_of_def select_rooms_def)
  from listing empty show ?thesis by blast
qed

theorem room_listing_ordered_one_per_room_witness:
  "status_of (get_room_availability demo_env demo_db) = 200 \<and>
   list_all (\<lambda>r. length (room_types demo_db r) = 1) (Room demo_db) \<and>
   body_of (get_room_availability demo_env demo_db) =
     RoomList
       [\<lparr>e_RoomNumber = 101, e_RoomType = ''Standard'', e_Rate = 125, e_Status = ''Vacant''\<rparr>,
        \<lparr>e_RoomNumber = 102, e_RoomType = ''Deluxe'', e_Rate = 180, e_Status = ''Occupied''\<rparr>] \<and>
   (\<exists>es. body_of (get_room_availability demo_env demo_db) = RoomList es \<and>
         sorted (map e_RoomNumber es) \<and> length es = length (Room demo_db)) \<and>
   connect_error demo_env = None \<and> exec_error demo_env (demo_db\<lparr>Room := []\<rparr>) SelectRooms = None \<and>
   Room (demo_db\<lparr>Room := []\<rparr>) = [] \<and>
   body_of (get_room_availability demo_env (demo_db\<lparr>Room := []\<rparr>)) = RoomList [] \<and>
   status_of (get_room_availability demo_env (demo_db\<lparr>Room := []\<rparr>)) = 200"
proof -
  have c: "connect_error demo_env = None" "exec_error demo_env d SelectRooms = None" for d
    by (simp_all add: demo_env_def)
  have ok: "status_of (get_room_availability demo_env demo_db) = 200"
    by (simp add: get_room_availability_returns c status_of_def)
  have fk: "\<forall>r \<in> set (Room demo_db). length (room_types demo_db r) = 1"
    by (simp add: demo_db_def room_types_def)
  have body: "body_of (get_room_availability demo_env demo_db) =
     RoomList
       [\<lparr>e_RoomNumber = 101, e_RoomType = ''Standard'', e_Rate = 125, e_Status = ''Vacant''\<rparr>,
        \<lparr>e_RoomNumber = 102, e_RoomType = ''Deluxe'', e_Rate = 180, e_Status = ''Occupied''\<rparr>]"
    by (simp add: get_room_availability_returns c body_of_def demo_select_rooms)
  from room_listing_ordered_one_per_room [of demo_env demo_db] ok fk
  have listed: "\<exists>es. body_of (get_room_availability demo_env demo_db) = RoomList es \<and>
         sorted (map e_RoomNumber es) \<and> length es = length (Room demo_db)"
    by blast
  have r: "Room (demo_db\<lparr>Room := []\<rparr>) = []" by simp
  from room_listing_ordered_one_per_room [of demo_env "demo_db\<lparr>Room := []\<rparr>"] c r
  have none: "body_of (get_room_availability demo_env (demo_db\<lparr>Room := []\<rparr>)) = RoomList [] \<and>
      status_of (get_room_availability demo_env (demo_db\<lparr>Room := []\<rparr>)) = 200"
    by blast
  from fk have fk': "list_all (\<lambda>r. length (room_types demo_db r) = 1) (Room demo_db)"
    by (simp add: list_all_iff)
  from ok fk' body listed c r none show ?thesis by blast
qed

text \<open>
  C9. \<open>get_room_availability\<close> is read-only: under every environment, whether it answers
  200 or 500, the stored database afterwards is the stored database before, in all four
  tables.
\<close>

theorem room_listing_is_read_only: "db_after (get_room_availability e s) = s"
proof (cases "connect_error e")
  case (Some x)
  then show ?thesis by (simp add: get_room_availability_no_connection db_after_def)
next
  case None
  then show ?thesis
    by (cases "exec_error e s SelectRooms")
      (simp_all add: get_room_availability_returns get_room_availability_select_raises
         db_after_def)
qed

theorem room_listing_is_read_only_witness:
  "db_after (get_room_availability demo_env booked_db) = booked_db \<and>
   db_after (get_room_availability offline_env booked_db) = booked_db \<and>
   db_after (get_room_availability (demo_env\<lparr>exec_error := lookup_fails\<rparr>) booked_db) = booked_db"
  using room_listing_is_read_only [of demo_env booked_db]
    room_listing_is_read_only [of offline_env booked_db]
    room_listing_is_read_only [of "demo_env\<lparr>exec_error := lookup_fails\<rparr>" booked_db]
  by blast

subsection \<open>Errors\<close>

text \<open>
  C8. The error taxonomy, with the 400 answer tied to a rollback that goes through (the
  run after the witness shows one that does not). When the connection cannot be opened,
  each of the three handlers answers 500 "Database connection failed", leaves the database
  alone and makes the one connection attempt. When the first database error raised by the
  statements or the commit of \<open>add_booking\<close> or \<open>cancel_booking\<close> is \<open>err\<close>, a rollback
  is called and the stored database is the one before; when that rollback goes through,
  the session's tables are back at the stored database and the answer is 400 with \<open>err\<close>
  itself as the details. No handler ever issues the same call twice, so nothing is
  retried.
\<close>

theorem error_taxonomy:
  "(connect_error e = Some x \<longrightarrow>
      add_booking e data s =
        ((ErrorBody ''Database connection failed'', 500), s, s, [Connect]) \<and>
      get_room_availability e s =
        ((ErrorBody ''Database connection failed'', 500), s, s, [Connect]) \<and>
      cancel_booking e i s =
        ((ErrorBody ''Database connection failed'', 500), s, s, [Connect])) \<and>
   (connect_error e = None \<and>
    first_error e [booking_insert data, room_occupy data] s = Some err \<longrightarrow>
      db_after (add_booking e data s) = s \<and>
      Rollback \<in> set (calls_of (add_booking e data s)) \<and>
      (rollback_error e = None \<longrightarrow>
         body_of (add_booking e data s) = ErrorDetails ''Failed to process booking'' err \<and>
         status_of (add_booking e data s) = 400 \<and>
         session_after (add_booking e data s) = s)) \<and>
   (connect_error e = None \<and> exec_error e s (SelectBookingRoom i) = Some err \<longrightarrow>
      db_after (cancel_booking e i s) = s \<and>
      Rollback \<in> set (calls_of (cancel_booking e i s)) \<and>
      (rollback_error e = None \<longrightarrow>
         body_of (cancel_booking e i s) = ErrorDetails ''Failed to cancel booking'' err \<and>
         status_of (cancel_booking e i s) = 400 \<and>
         session_after (cancel_booking e i s) = s)) \<and>
   (connect_error e = None \<and> exec_error e s (SelectBookingRoom i) = None \<and>
    find (\<lambda>b. b_BookingID b = i) (Booking s) = Some b \<and>
    first_error e [DeleteBooking i, room_vacate (b_RoomNumber b)] s = Some err \<longrightarrow>
      db_after (cancel_booking e i s) = s \<and>
      Rollback \<in> set (calls_of (cancel_booking e i s)) \<and>
      (rollback_error e = None \<longrightarrow>
         body_of (cancel_booking e i s) = ErrorDetails ''Failed to cancel booking'' err \<and>
         status_of (cancel_booking e i s) = 400 \<and>
         session_after (cancel_booking e i s) = s)) \<and>
   distinct (calls_of (add_booking e data s)) \<and>
   distinct (calls_of (get_room_availability e s)) \<and>
   distinct (calls_of (cancel_booking e i s))"
proof -
  have offline: "connect_error e = Some x \<longrightarrow>
      add_booking e data s =
        ((ErrorBody ''Database connection failed'', 500), s, s, [Connect]) \<and>
      get_room_availability e s =
        ((ErrorBody ''Database connection failed'', 500), s, s, [Connect]) \<and>
      cancel_booking e i s =
        ((ErrorBody ''Database connection failed'', 500), s, s, [Connect])"
    by (simp add: add_booking_no_connection get_room_availability_no_connection
          cancel_booking_no_connection)
  have create: "connect_error e = None \<and>
    first_error e [booking_insert data, room_occupy data] s = Some err \<longrightarrow>
      db_after (add_booking e data s) = s \<and>
      Rollback \<in> set (calls_of (add_booking e data s)) \<and>
      (rollback_error e = None \<longrightarrow>
         body_of (add_booking e data s) = ErrorDetails ''Failed to process booking'' err \<and>
         status_of (add_booking e data s) = 400 \<and>
         session_after (add_booking e data s) = s)"
    using add_booking_raises [of e data s err] by (simp add: except_rolled_back)
  have lookup: "connect_error e = None \<and> exec_error e s (SelectBookingRoom i) = Some err \<longrightarrow>
      db_after (cancel_booking e i s) = s \<and>
      Rollback \<in> set (calls_of (cancel_booking e i s)) \<and>
      (rollback_error e = None \<longrightarrow>
         body_of (cancel_booking e i s) = ErrorDetails ''Failed to cancel booking'' err \<and>
         status_of (cancel_booking e i s) = 400 \<and>
         session_after (cancel_booking e i s) = s)"
    by (simp add: cancel_booking_select_raises body_of_def status_of_def db_after_def
          session_after_def calls_of_def except_rolled_back)
  have cancel: "connect_error e = None \<and> exec_error e s (SelectBookingRoom i) = None \<and>
    find (\<lambda>b. b_BookingID b = i) (Booking s) = Some b \<and>
    first_error e [DeleteBooking i, room_vacate (b_RoomNumber b)] s = Some err \<longrightarrow>
      db_after (cancel_booking e i s) = s \<and>
      Rollback \<in> set (calls_of (cancel_booking e i s)) \<and>
      (rollback_error e = None \<longrightarrow>
         body_of (cancel_booking e i s) = ErrorDetails ''Failed to cancel booking'' err \<and>
         status_of (cancel_booking e i s) = 400 \<and>
         session_after (cancel_booking e i s) = s)"
    using cancel_booking_raises [of e s i b err] by (simp add: except_rolled_back)
  from offline create lookup cancel add_booking_calls_distinct [of e data s]
    get_room_availability_calls_distinct [of e s] cancel_booking_calls_distinct [of e i s]
  show ?thesis by blast
qed

theorem error_taxonomy_witness:
  "connect_error offline_env = Some ''2003: Cannot connect to MySQL server on localhost'' \<and>
   status_of (add_booking offline_env demo_request demo_db) = 500 \<and>
   status_of (get_room_availability offline_env demo_db) = 500 \<and>
   status_of (cancel_booking offline_env 1 booked_db) = 500 \<and>
   connect_error (demo_env\<lparr>exec_error := update_fails\<rparr>) = None \<and>
   rollback_error (demo_env\<lparr>exec_error := update_fails\<rparr>) = None \<and>
   first_error (demo_env\<lparr>exec_error := update_fails\<rparr>)
     [booking_insert demo_request, room_occupy demo_request] demo_db =
     Some ''1205 (HY000): Lock wait timeout exceeded'' \<and>
   body_of (add_booking (demo_env\<lparr>exec_error := update_fails\<rparr>) demo_request demo_db) =
     ErrorDetails ''Failed to process booking'' ''1205 (HY000): Lock wait timeout exceeded'' \<and>
   status_of (add_booking (demo_env\<lparr>exec_error := update_fails\<rparr>) demo_request demo_db) = 400 \<and>
   db_after (add_booking (demo_env\<lparr>exec_error := update_fails\<rparr>) demo_request demo_db) = demo_db \<and>
   session_after (add_booking (demo_env\<lparr>exec_error := update_fails\<rparr>) demo_request demo_db) =
     demo_db \<and>
   connect_error (demo_env\<lparr>exec_error := lookup_fails\<rparr>) = None \<and>
   rollback_error (demo_env\<lparr>exec_error := lookup_fails\<rparr>) = None \<and>
   exec_error (demo_env\<lparr>exec_error := lookup_fails\<rparr>) booked_db (SelectBookingRoom 1) =
     Some ''1317 (70100): Query execution was interrupted'' \<and>
   body_of (cancel_booking (demo_env\<lparr>exec_error := lookup_fails\<rparr>) 1 booked_db) =
     ErrorDetails ''Failed to cancel booking'' ''1317 (70100): Query execution was interrupted'' \<and>
   status_of (cancel_booking (demo_env\<lparr>exec_error := lookup_fails\<rparr>) 1 booked_db) = 400 \<and>
   exec_error (demo_env\<lparr>exec_error := update_fails\<rparr>) booked_db (SelectBookingRoom 1) = None \<and>
   find (\<lambda>b. b_BookingID b = 1) (Booking booked_db) = Some booking1 \<and>
   first_error (demo_env\<lparr>exec_error := update_fails\<rparr>)
     [DeleteBooking 1, room_vacate (b_RoomNumber booking1)] booked_db =
     Some ''1205 (HY000): Lock wait timeout exceeded'' \<and>
   body_of (cancel_booking (demo_env\<lparr>exec_error := update_fails\<rparr>) 1 booked_db) =
     ErrorDetails ''Failed to cancel booking'' ''1205 (HY000): Lock wait timeout exceeded'' \<and>
   status_of (cancel_booking (demo_env\<lparr>exec_error := update_fails\<rparr>) 1 booked_db) = 400 \<and>
   db_after (cancel_booking (demo_env\<lparr>exec_error := update_fails\<rparr>) 1 booked_db) = booked_db \<and>
   session_after (cancel_booking (demo_env\<lparr>exec_error := update_fails\<rparr>) 1 booked_db) =
     booked_db \<and>
   distinct (calls_of (cancel_booking (demo_env\<lparr>exec_error := update_fails\<rparr>) 1 booked_db))"
proof -
  let ?locked = "demo_env\<lparr>exec_error := update_fails\<rparr>"
  let ?cut = "demo_env\<lparr>exec_error := lookup_fails\<rparr>"
  have off: "connect_error offline_env = Some ''2003: Cannot connect to MySQL server on localhost''"
    by (simp add: offline_env_def)
  from error_taxonomy [of offline_env "''2003: Cannot connect to MySQL server on localhost''"
      demo_request demo_db 1] off
  have a: "status_of (add_booking offline_env demo_request demo_db) = 500"
    and g: "status_of (get_room_availability offline_env demo_db) = 500"
    by (simp_all add: status_of_def)
  from error_taxonomy [of offline_env "''2003: Cannot connect to MySQL server on localhost''"
      demo_request booked_db 1] off
  have k: "status_of (cancel_booking offline_env 1 booked_db) = 500"
    by (simp add: status_of_def)
  have c1: "connect_error ?locked = None" "rollback_error ?locked = None"
    by (simp_all add: demo_env_def)
  have f1: "first_error ?locked [booking_insert demo_request, room_occupy demo_request] demo_db =
     Some ''1205 (HY000): Lock wait timeout exceeded''"
    by (simp add: update_fails_def booking_insert_def room_occupy_def)
  from error_taxonomy [of ?locked _ demo_request demo_db _
      "''1205 (HY000): Lock wait timeout exceeded''"] c1 f1
  have w: "body_of (add_booking ?locked demo_request demo_db) =
     ErrorDetails ''Failed to process booking'' ''1205 (HY000): Lock wait timeout exceeded'' \<and>
     status_of (add_booking ?locked demo_request demo_db) = 400 \<and>
     db_after (add_booking ?locked demo_request demo_db) = demo_db \<and>
     session_after (add_booking ?locked demo_request demo_db) = demo_db"
    by blast
  have c2: "connect_error ?cut = None" "rollback_error ?cut = None"
    by (simp_all add: demo_env_def)
  have q2: "exec_error ?cut booked_db (SelectBookingRoom 1) =
     Some ''1317 (70100): Query execution was interrupted''"
    by (simp add: lookup_fails_def)
  from error_taxonomy [of ?cut _ _ booked_db 1
      "''1317 (70100): Query execution was interrupted''"] c2 q2
  have l: "body_of (cancel_booking ?cut 1 booked_db) =
     ErrorDetails ''Failed to cancel booking'' ''1317 (70100): Query execution was interrupted'' \<and>
     status_of (cancel_booking ?cut 1 booked_db) = 400"
    by blast
  have q3: "exec_error ?locked booked_db (SelectBookingRoom 1) = None"
    by (simp add: update_fails_def)
  have b3: "find (\<lambda>b. b_BookingID b = 1) (Booking booked_db) = Some booking1"
    by (simp add: booked_db_def booking1_def)
  have f3: "first_error ?locked [DeleteBooking 1, room_vacate (b_RoomNumber booking1)] booked_db =
     Some ''1205 (HY000): Lock wait timeout exceeded''"
    by (simp add: update_fails_def room_vacate_def)
  from error_taxonomy [of ?locked _ _ booked_db 1
      "''1205 (HY000): Lock wait timeout exceeded''" booking1] c1 q3 b3 f3
  have u: "body_of (cancel_booking ?locked 1 booked_db) =
     ErrorDetails ''Failed to cancel booking'' ''1205 (HY000): Lock wait timeout exceeded'' \<and>
     status_of (cancel_booking ?locked 1 booked_db) = 400 \<and>
     db_after (cancel_booking ?locked 1 booked_db) = booked_db \<and>
     session_after (cancel_booking ?locked 1 booked_db) = booked_db \<and>
     distinct (calls_of (cancel_booking ?locked 1 booked_db))"
    by blast
  from off a g k c1 f1 w c2 q2 l q3 b3 f3 u show ?thesis by blast
qed

text \<open>
  A write error that is not answered 400: the connection is lost while the status update
  runs, the unguarded rollback in the \<open>except\<close> block raises too, and the caller gets the
  500 of an unhandled exception. Nothing was committed.
\<close>

theorem error_taxonomy_counterexample:
  "connect_error lost_env = None \<and>
   first_error lost_env [booking_insert demo_request, room_occupy demo_request] demo_db =
     Some ''2013 (HY000): Lost connection to MySQL server during query'' \<and>
   body_of (add_booking lost_env demo_request demo_db) = ServerErrorPage \<and>
   status_of (add_booking lost_env demo_request demo_db) = 500 \<and>
   status_of (add_booking lost_env demo_request demo_db) \<noteq> 400 \<and>
   db_after (add_booking lost_env demo_request demo_db) = demo_db"
proof -
  have c: "connect_error lost_env = None"
    by (simp add: lost_env_def demo_env_def)
  have r: "rollback_error lost_env \<noteq> None"
    by (simp add: lost_env_def)
  have i: "exec_error lost_env demo_db (booking_insert demo_request) = None"
    by (simp add: lost_env_def update_lost_def booking_insert_def)
  have u: "exec_error lost_env (apply_stmt lost_env (booking_insert demo_request) demo_db)
             (room_occupy demo_request) =
             Some ''2013 (HY000): Lost connection to MySQL server during query''"
    by (simp add: lost_env_def update_lost_def room_occupy_def)
  have f: "first_error lost_env [booking_insert demo_request, room_occupy demo_request] demo_db =
     Some ''2013 (HY000): Lost connection to MySQL server during query''"
    unfolding first_error_two by (simp add: i u)
  from add_booking_update_raises [OF c i u] r
  have "body_of (add_booking lost_env demo_request demo_db) = ServerErrorPage \<and>
   status_of (add_booking lost_env demo_request demo_db) = 500 \<and>
   db_after (add_booking lost_env demo_request demo_db) = demo_db"
    by (simp add: body_of_def status_of_def db_after_def except_not_rolled_back)
  with c f show ?thesis by simp
qed

end
